theory Spec2Isabelle
  imports
    Main
    "HOL-Library.Sublist"
    "HOL-Library.List_Lexorder"
    "HOL-Library.Char_ord"
    "HOL-Library.Product_Lexorder"
begin

section \<open>Python strings\<close>

text \<open>
  A Python \<open>str\<close> is modelled as a \<open>string\<close> holding its UTF-8 bytes. UTF-8 is
  injective and self-synchronising, so equality, concatenation, \<open>startswith\<close> and the
  substring test \<open>sub in s\<close> agree with the code-point versions; sorting by bytes agrees
  with sorting by code points. \<open>lower\<close> is modelled on ASCII letters only.
\<close>

definition contains :: "string \<Rightarrow> string \<Rightarrow> bool" where
  \<comment> \<open>\<open>contains sub s\<close> is Python's \<open>sub in s\<close>\<close>
  "contains sub s = sublist sub s"

definition startswith :: "string \<Rightarrow> string \<Rightarrow> bool" where
  "startswith s pre = prefix pre s"

fun join :: "string \<Rightarrow> string list \<Rightarrow> string" where
  "join sep [] = []"
| "join sep [x] = x"
| "join sep (x # y # ys) = x @ sep @ join sep (y # ys)"

definition lower_char :: "char \<Rightarrow> char" where
  "lower_char c =
     (if 65 \<le> (of_char c :: nat) \<and> (of_char c :: nat) \<le> 90
      then char_of ((of_char c :: nat) + 32) else c)"

definition lower :: "string \<Rightarrow> string" where
  "lower s = map lower_char s"

definition replace :: "char \<Rightarrow> string \<Rightarrow> string \<Rightarrow> string" where
  \<comment> \<open>\<open>s.replace(old, new)\<close> for a one-character \<open>old\<close>, the only use in the source\<close>
  "replace old new s = concat (map (\<lambda>c. if c = old then new else [c]) s)"

fun rfind :: "char \<Rightarrow> string \<Rightarrow> nat option" where
  "rfind c [] = None"
| "rfind c (x # xs) =
     (case rfind c xs of
        Some i \<Rightarrow> Some (Suc i)
      | None \<Rightarrow> if x = c then Some 0 else None)"

definition digit_char :: "nat \<Rightarrow> char" where
  "digit_char d = char_of (48 + d)"

fun str_of_nat :: "nat \<Rightarrow> string" where
  "str_of_nat n =
     (if n < 10 then [digit_char n] else str_of_nat (n div 10) @ [digit_char (n mod 10)])"

definition nl :: string where
  "nl = [CHR 0x0A]"

definition lines :: "string list \<Rightarrow> string" where
  \<comment> \<open>a multi-line literal, written one source line per element\<close>
  "lines ls = join nl ls"

section \<open>Paths (pathlib, POSIX flavour)\<close>

text \<open>
  A path is its anchor (absolute or not) and its list of components below the anchor.
  \<open>parts\<close>, \<open>str\<close>, \<open>name\<close>, \<open>suffix\<close>, \<open>parent\<close> follow \<open>pathlib.PurePosixPath\<close>:
  the suffix of a name starts at its last dot, unless that dot is the first or the last
  character of the name; paths are ordered by their lists of components.
\<close>

record path =
  is_absolute :: bool
  names :: "string list"

definition parts :: "path \<Rightarrow> string list" where
  "parts p = (if is_absolute p then ''/'' # names p else names p)"

definition path_str :: "path \<Rightarrow> string" where
  "path_str p =
     (if is_absolute p then ''/'' @ join ''/'' (names p)
      else if names p = [] then ''.'' else join ''/'' (names p))"

definition path_name :: "path \<Rightarrow> string" where
  "path_name p = (if names p = [] then [] else last (names p))"

definition suffix_of_name :: "string \<Rightarrow> string" where
  "suffix_of_name name =
     (case rfind CHR ''.'' name of
        None \<Rightarrow> []
      | Some i \<Rightarrow> if 0 < i \<and> i + 1 < length name then drop i name else [])"

definition path_suffix :: "path \<Rightarrow> string" where
  "path_suffix p = suffix_of_name (path_name p)"

definition parent :: "path \<Rightarrow> path" where
  "parent p = p\<lparr>names := butlast (names p)\<rparr>"

definition child :: "path \<Rightarrow> string \<Rightarrow> path" where
  \<comment> \<open>the path \<open>iterdir\<close> yields for a directory entry: the entry name is appended as is\<close>
  "child p n = p\<lparr>names := names p @ [n]\<rparr>"

fun split_sep :: "char \<Rightarrow> string \<Rightarrow> string \<Rightarrow> string list" where
  "split_sep sep acc [] = [rev acc]"
| "split_sep sep acc (c # cs) =
     (if c = sep then rev acc # split_sep sep [] cs else split_sep sep (c # acc) cs)"

definition path_components :: "string \<Rightarrow> string list" where
  "path_components s = filter (\<lambda>c. c \<noteq> [] \<and> c \<noteq> ''.'') (split_sep CHR ''/'' [] s)"

definition truediv :: "path \<Rightarrow> string \<Rightarrow> path" where
  \<comment> \<open>\<open>p / s\<close> for a relative \<open>s\<close>\<close>
  "truediv p s = p\<lparr>names := names p @ path_components s\<rparr>"

definition relative_to :: "path \<Rightarrow> path \<Rightarrow> path" where
  \<comment> \<open>\<open>f.relative_to(base)\<close> where \<open>base\<close> is an ancestor of \<open>f\<close>; every recorded file
      is one (lemma \<open>scan_files_under_root\<close>), so the \<open>ValueError\<close> branch is not reached\<close>
  "relative_to f base = \<lparr>is_absolute = False, names = drop (length (names base)) (names f)\<rparr>"

section \<open>The file system\<close>

text \<open>
  What the scanner can observe. A directory has two permissions of its own: whether it can
  be listed (\<open>iterdir\<close> raises \<open>PermissionError\<close> when it cannot) and whether it can be
  searched (\<open>stat\<close> of any path through it raises \<open>PermissionError\<close> when it cannot).
  The other entries are a regular file (or a link to one), an entry that exists but is
  neither file nor directory (socket, fifo, device), a dangling link, and an entry whose own
  \<open>stat\<close> is denied (a link into a place that cannot be searched).
  \<open>is_file()\<close>, \<open>is_dir()\<close> and \<open>exists()\<close> are \<open>stat\<close> calls that turn the errors
  ENOENT, ENOTDIR, EBADF and ELOOP into \<open>False\<close> and re-raise every other one, so a denied
  \<open>stat\<close> reaches the caller as \<open>PermissionError\<close>.
  A link cycle appears unrolled; the scanner reads only finitely many levels of it.
\<close>

datatype fsnode =
    File
  | Dir bool bool "(string \<times> fsnode) list"  \<comment> \<open>can be listed, can be searched, entries\<close>
  | Special
  | Dangling
  | Denied

abbreviation Folder :: "(string \<times> fsnode) list \<Rightarrow> fsnode" where
  \<comment> \<open>a directory with both permissions\<close>
  "Folder items \<equiv> Dir True True items"

fun is_file :: "fsnode \<Rightarrow> bool" where
  "is_file File = True"
| "is_file _ = False"

fun is_dir :: "fsnode \<Rightarrow> bool" where
  "is_dir (Dir _ _ _) = True"
| "is_dir _ = False"

definition stat_raises :: "bool \<Rightarrow> fsnode \<Rightarrow> bool" where
  \<comment> \<open>\<open>stat\<close> of an entry raises \<open>PermissionError\<close>: the directory that holds it cannot be
      searched, or the entry itself is denied\<close>
  "stat_raises searchable node = (\<not> searchable \<or> node = Denied)"

datatype error =
  NotADirectoryError | FileNotFoundError | PermissionError | ValueError | ImportError

text \<open>
  \<open>Path.exists()\<close> for the path made of the given components below a node: the answer, or
  the \<open>PermissionError\<close> it raises.
\<close>

fun path_exists :: "fsnode \<Rightarrow> string list \<Rightarrow> error + bool"
and exists_in :: "(string \<times> fsnode) list \<Rightarrow> string \<Rightarrow> string list \<Rightarrow> error + bool" where
  "path_exists Denied rel = Inl PermissionError"
| "path_exists Dangling rel = Inr False"
| "path_exists node [] = Inr True"
| "path_exists (Dir readable searchable items) (c # cs) =
     (if searchable then exists_in items c cs else Inl PermissionError)"
| "path_exists node (c # cs) = Inr False"
| "exists_in [] c cs = Inr False"
| "exists_in ((n, node) # rest) c cs =
     (if n = c then path_exists node cs else exists_in rest c cs)"

section \<open>scanner.py\<close>

definition IGNORE_DIRS :: "string set" where
  "IGNORE_DIRS = {
     ''__pycache__'', ''.git'', ''.github'', ''node_modules'', ''venv'', ''env'',
     ''.venv'', ''dist'', ''build'', ''.next'', ''.nuxt'', ''target'', ''bin'', ''obj'',
     ''.idea'', ''.vscode'', ''.DS_Store'', ''coverage'', ''.pytest_cache'',
     ''__MACOSX'', ''.mypy_cache'', ''.tox''}"

definition IGNORE_FILES :: "string set" where
  "IGNORE_FILES = {
     ''.DS_Store'', ''Thumbs.db'', ''.gitignore'', ''.gitattributes'',
     ''package-lock.json'', ''yarn.lock'', ''poetry.lock'', ''Pipfile.lock''}"

record scanner =
  self_project_path :: path
  self_files :: "path list"
  self_directories :: "path list"
  self_file_extensions :: "string set"

definition ProjectScanner :: "path \<Rightarrow> scanner" where
  \<comment> \<open>\<open>__init__\<close>\<close>
  "ProjectScanner p =
     \<lparr>self_project_path = p, self_files = [], self_directories = [],
      self_file_extensions = {}\<rparr>"

text \<open>
  \<open>_scan_recursive\<close>: \<open>scan_recursive\<close> is the method, called on a path together with the
  node found there; \<open>scan_items\<close> is its \<open>for item in path.iterdir()\<close> loop, which also
  needs to know whether the directory it lists can be searched.
  The \<open>try\<close> of the method encloses the whole loop and catches \<open>PermissionError\<close> only:
  when \<open>iterdir\<close> raises it nothing is recorded, and when \<open>item.is_file()\<close> raises it the
  loop ends there, with what has been recorded so far. A recursive call catches its own
  \<open>PermissionError\<close>, so the only errors that pass through are those of an \<open>iterdir\<close> on
  something that is not a directory, which the method does not catch.
\<close>

fun scan_recursive :: "fsnode \<Rightarrow> path \<Rightarrow> nat \<Rightarrow> nat \<Rightarrow> scanner \<Rightarrow> error + scanner"
and scan_items ::
  "bool \<Rightarrow> (string \<times> fsnode) list \<Rightarrow> path \<Rightarrow> nat \<Rightarrow> nat \<Rightarrow> scanner \<Rightarrow> error + scanner"
where
  "scan_recursive node p depth max_depth s =
     (if depth > max_depth then Inr s
      else case node of
             Dir readable searchable items \<Rightarrow>
               if readable then scan_items searchable items p depth max_depth s else Inr s
           | Denied \<Rightarrow> Inr s
           | Dangling \<Rightarrow> Inl FileNotFoundError
           | File \<Rightarrow> Inl NotADirectoryError
           | Special \<Rightarrow> Inl NotADirectoryError)"
| "scan_items searchable [] p depth max_depth s = Inr s"
| "scan_items searchable ((n, node) # rest) p depth max_depth s =
     (let item = child p n in
      if path_name item \<in> IGNORE_DIRS \<or> path_name item \<in> IGNORE_FILES
        then scan_items searchable rest p depth max_depth s
      else if startswith (path_name item) ''.''
              \<and> path_name item \<notin> {''.env.example'', ''.editorconfig''}
        then scan_items searchable rest p depth max_depth s
      else if stat_raises searchable node
        then Inr s
      else if is_file node
        then scan_items searchable rest p depth max_depth
               (s\<lparr>self_files := self_files s @ [item],
                  self_file_extensions :=
                    (if path_suffix item \<noteq> []
                     then insert (path_suffix item) (self_file_extensions s)
                     else self_file_extensions s)\<rparr>)
      else if is_dir node
        then (case scan_recursive node item (depth + 1) max_depth
                     (s\<lparr>self_directories := self_directories s @ [item]\<rparr>) of
                Inl e \<Rightarrow> Inl e
              | Inr s' \<Rightarrow> scan_items searchable rest p depth max_depth s')
      else scan_items searchable rest p depth max_depth s)"

text \<open>\<open>_generate_tree\<close>\<close>

definition tee :: string where
  \<comment> \<open>the four characters U+251C U+2500 U+2500 and a space\<close>
  "tee = [CHR 0xE2, CHR 0x94, CHR 0x9C, CHR 0xE2, CHR 0x94, CHR 0x80,
          CHR 0xE2, CHR 0x94, CHR 0x80, CHR 0x20]"

definition indent_of :: "nat \<Rightarrow> string" where
  "indent_of k = concat (replicate k ''  '')"

fun group_by_dir :: "path list \<Rightarrow> (string list \<times> string list) list \<Rightarrow>
    (string list \<times> string list) list" where
  "group_by_dir [] dir_structure = dir_structure"
| "group_by_dir (rel_path # rest) dir_structure =
     (let dir_path = names (parent rel_path) in
      group_by_dir rest
        (if dir_path \<in> fst ` set dir_structure
         then map (\<lambda>(d, fs). if d = dir_path then (d, fs @ [path_name rel_path]) else (d, fs))
                dir_structure
         else dir_structure @ [(dir_path, [path_name rel_path])]))"

definition tree_lines_of_dir :: "string list \<times> string list \<Rightarrow> string list" where
  "tree_lines_of_dir = (\<lambda>(dir_path, filenames).
     (if dir_path \<noteq> []
      then [indent_of (length dir_path) @ tee @ last dir_path @ ''/'']
      else [])
     @ map (\<lambda>filename.
              indent_of (length dir_path + (if dir_path \<noteq> [] then 1 else 0)) @ tee @ filename)
           (sort filenames))"

definition generate_tree :: "scanner \<Rightarrow> nat \<Rightarrow> string" where
  "generate_tree s max_files =
     (let sorted_files =
            take max_files (sort_key (\<lambda>p. (length (parts p), path_str p)) (self_files s));
          dir_structure =
            group_by_dir (map (\<lambda>f. relative_to f (self_project_path s)) sorted_files) [];
          tree_lines =
            [path_name (self_project_path s) @ ''/'']
            @ concat (map tree_lines_of_dir (sort_key fst dir_structure))
            @ (if length (self_files s) > max_files
               then [''  ... and '' @ str_of_nat (length (self_files s) - max_files)
                     @ '' more files'']
               else [])
      in join nl tree_lines)"

text \<open>\<open>_find_special_files\<close>\<close>

definition important :: "(string \<times> string list) list" where
  "important = [
     (''readme'', [''README.md'', ''README.rst'', ''README.txt'', ''README'']),
     (''license'', [''LICENSE'', ''LICENSE.md'', ''LICENSE.txt'', ''COPYING'']),
     (''requirements'', [''requirements.txt'', ''Pipfile'', ''pyproject.toml'', ''setup.py'']),
     (''package'', [''package.json'', ''Cargo.toml'', ''go.mod'', ''pom.xml'', ''build.gradle'']),
     (''config'', [''.env.example'', ''config.yml'', ''config.json'', ''settings.py'']),
     (''docker'', [''Dockerfile'', ''docker-compose.yml'', ''.dockerignore'']),
     (''ci'', [''.github/workflows'', ''.gitlab-ci.yml'', ''.travis.yml'', ''Jenkinsfile'']),
     (''makefile'', [''Makefile'', ''makefile'']),
     (''changelog'', [''CHANGELOG.md'', ''CHANGELOG.rst'', ''HISTORY.md''])]"

fun first_existing :: "fsnode \<Rightarrow> string list \<Rightarrow> error + string option" where
  \<comment> \<open>the inner loop: the first candidate that exists, unless an \<open>exists()\<close> raises\<close>
  "first_existing root [] = Inr None"
| "first_existing root (filename # filenames) =
     (case path_exists root (path_components filename) of
        Inl e \<Rightarrow> Inl e
      | Inr True \<Rightarrow> Inr (Some filename)
      | Inr False \<Rightarrow> first_existing root filenames)"

fun find_special_files_loop ::
  "fsnode \<Rightarrow> path \<Rightarrow> (string \<times> string list) list \<Rightarrow> (string \<rightharpoonup> path)
     \<Rightarrow> error + (string \<rightharpoonup> path)" where
  "find_special_files_loop root p [] found = Inr found"
| "find_special_files_loop root p ((category, filenames) # rest) found =
     (case first_existing root filenames of
        Inl e \<Rightarrow> Inl e
      | Inr None \<Rightarrow> find_special_files_loop root p rest found
      | Inr (Some filename) \<Rightarrow>
          find_special_files_loop root p rest (found(category \<mapsto> truediv p filename)))"

definition find_special_files :: "fsnode \<Rightarrow> scanner \<Rightarrow> error + (string \<rightharpoonup> path)" where
  \<comment> \<open>the method has no \<open>try\<close>: an \<open>exists()\<close> that raises ends it, and \<open>scan\<close> with it\<close>
  "find_special_files root s =
     find_special_files_loop root (self_project_path s) important Map.empty"

text \<open>The dictionary returned by \<open>scan\<close>.\<close>

record scan_result =
  project_path :: path
  project_name :: string
  files :: "path list"
  directories :: "path list"
  file_count :: nat
  dir_count :: nat
  extensions :: "string list"
  file_tree :: string
  special_files :: "string \<rightharpoonup> path"

definition scan_of :: "fsnode \<Rightarrow> scanner \<Rightarrow> error + scan_result" where
  \<comment> \<open>\<open>scan\<close> as a method of a scanner in any state\<close>
  "scan_of root s =
     (case scan_recursive root (self_project_path s) 0 10 s of
        Inl e \<Rightarrow> Inl e
      | Inr s' \<Rightarrow>
          (case find_special_files root s' of
             Inl e \<Rightarrow> Inl e
           | Inr found \<Rightarrow>
               Inr \<lparr>project_path = self_project_path s',
                    project_name = path_name (self_project_path s'),
                    files = self_files s',
                    directories = self_directories s',
                    file_count = length (self_files s'),
                    dir_count = length (self_directories s'),
                    extensions = sorted_list_of_set (self_file_extensions s'),
                    file_tree = generate_tree s' 50,
                    special_files = found\<rparr>))"

definition scan :: "fsnode \<Rightarrow> path \<Rightarrow> error + scan_result" where
  \<comment> \<open>\<open>ProjectScanner(p).scan()\<close>, where \<open>root\<close> is what the file system holds at \<open>p\<close>\<close>
  "scan root p = scan_of root (ProjectScanner p)"

section \<open>Vocabulary of the scanner's properties\<close>

text \<open>These definitions are not code of the program; the theorems are stated with them.\<close>

definition excluded :: "string \<Rightarrow> bool" where
  \<comment> \<open>an entry name that the filter drops: in an ignore set, or a dot-name not allow-listed\<close>
  "excluded n =
     (n \<in> IGNORE_DIRS \<or> n \<in> IGNORE_FILES
      \<or> (startswith n ''.'' \<and> n \<notin> {''.env.example'', ''.editorconfig''}))"

text \<open>
  Every regular file strictly under a directory, as its list of components below that
  directory, in listing order; no filter, no depth bound, and whatever the permissions.
\<close>

fun files_under :: "fsnode \<Rightarrow> string list list"
and files_under_items :: "(string \<times> fsnode) list \<Rightarrow> string list list" where
  "files_under (Dir readable searchable items) = files_under_items items"
| "files_under File = []"
| "files_under Special = []"
| "files_under Dangling = []"
| "files_under Denied = []"
| "files_under_items [] = []"
| "files_under_items ((n, node) # rest) =
     (if is_file node then [[n]] else map ((#) n) (files_under node)) @ files_under_items rest"

text \<open>The same, leaving out what lies below a directory that cannot be listed.\<close>

fun listed_files_under :: "fsnode \<Rightarrow> string list list"
and listed_files_under_items :: "(string \<times> fsnode) list \<Rightarrow> string list list" where
  "listed_files_under (Dir readable searchable items) =
     (if readable then listed_files_under_items items else [])"
| "listed_files_under File = []"
| "listed_files_under Special = []"
| "listed_files_under Dangling = []"
| "listed_files_under Denied = []"
| "listed_files_under_items [] = []"
| "listed_files_under_items ((n, node) # rest) =
     (if is_file node then [[n]] else map ((#) n) (listed_files_under node))
     @ listed_files_under_items rest"

definition counted :: "nat \<Rightarrow> string list \<Rightarrow> bool" where
  \<comment> \<open>a file below the root is non-ignored and non-hidden when no component of its path
      below the root is excluded; it is within the depth bound when at most \<open>max_depth\<close>
      directories lie between the root and the file\<close>
  "counted max_depth rel = (list_all (\<lambda>c. \<not> excluded c) rel \<and> length rel \<le> max_depth + 1)"



text \<open>
  No \<open>stat\<close> of the traversal is denied: every directory that can be listed can be
  searched, and none of its entries that pass the filter is denied.
\<close>

fun stat_ok :: "fsnode \<Rightarrow> bool"
and stat_ok_items :: "(string \<times> fsnode) list \<Rightarrow> bool" where
  "stat_ok (Dir readable searchable items) =
     (\<not> readable \<or> (searchable \<and> stat_ok_items items))"
| "stat_ok File = True"
| "stat_ok Special = True"
| "stat_ok Dangling = True"
| "stat_ok Denied = False"
| "stat_ok_items [] = True"
| "stat_ok_items ((n, node) # rest) = ((excluded n \<or> stat_ok node) \<and> stat_ok_items rest)"

text \<open>Nothing is denied anywhere: every directory can be listed and searched.\<close>

fun accessible :: "fsnode \<Rightarrow> bool"
and accessible_items :: "(string \<times> fsnode) list \<Rightarrow> bool" where
  "accessible (Dir readable searchable items) =
     (readable \<and> searchable \<and> accessible_items items)"
| "accessible File = True"
| "accessible Special = True"
| "accessible Dangling = True"
| "accessible Denied = False"
| "accessible_items [] = True"
| "accessible_items ((n, node) # rest) = (accessible node \<and> accessible_items rest)"

definition extensions_observed :: "scan_result \<Rightarrow> bool" where
  \<comment> \<open>the data model's reading of \<open>extensions\<close>: the non-empty suffixes of the files\<close>
  "extensions_observed r =
     (set (extensions r) = {e. e \<noteq> [] \<and> e \<in> path_suffix ` set (files r)})"

definition descend :: "path \<Rightarrow> string list \<Rightarrow> path" where
  \<comment> \<open>the path reached from \<open>p\<close> by descending through the given entry names\<close>
  "descend p rel = p\<lparr>names := names p @ rel\<rparr>"

definition under :: "path \<Rightarrow> path \<Rightarrow> bool" where
  \<comment> \<open>\<open>q\<close> is \<open>p0\<close> or lies below it\<close>
  "under p0 q = (is_absolute q = is_absolute p0 \<and> prefix (names p0) (names q))"

definition visible :: "nat \<Rightarrow> nat \<Rightarrow> string list \<Rightarrow> bool" where
  \<comment> \<open>\<open>counted\<close> seen from a directory that is scanned at recursion depth \<open>d\<close>\<close>
  "visible d m rel = (list_all (\<lambda>c. \<not> excluded c) rel \<and> d + length rel \<le> m + 1)"

section \<open>detector.py\<close>

definition LANGUAGE_MAP :: "string \<rightharpoonup> string" where
  "LANGUAGE_MAP = map_of [
     (''.py'', ''Python''),
     (''.js'', ''JavaScript''),
     (''.ts'', ''TypeScript''),
     (''.jsx'', ''React''),
     (''.tsx'', ''React''),
     (''.java'', ''Java''),
     (''.c'', ''C''),
     (''.cpp'', ''C++''),
     (''.cs'', ''C#''),
     (''.go'', ''Go''),
     (''.rs'', ''Rust''),
     (''.rb'', ''Ruby''),
     (''.php'', ''PHP''),
     (''.swift'', ''Swift''),
     (''.kt'', ''Kotlin''),
     (''.scala'', ''Scala''),
     (''.r'', ''R''),
     (''.m'', ''Objective-C''),
     (''.sh'', ''Shell''),
     (''.html'', ''HTML''),
     (''.css'', ''CSS''),
     (''.scss'', ''SASS''),
     (''.vue'', ''Vue''),
     (''.sql'', ''SQL''),
     (''.md'', ''Markdown'')]"

definition FRAMEWORK_INDICATORS :: "(string \<times> string list) list" where
  "FRAMEWORK_INDICATORS = [
     (''React'', [''package.json'', ''react'']),
     (''Next.js'', [''next.config.js'', ''next.config.ts'']),
     (''Vue.js'', [''vue.config.js'', ''nuxt.config.js'']),
     (''Angular'', [''angular.json'']),
     (''Django'', [''manage.py'', ''settings.py'']),
     (''Flask'', [''app.py'', ''flask'']),
     (''FastAPI'', [''main.py'', ''fastapi'']),
     (''Express'', [''express'']),
     (''Node.js'', [''package.json'']),
     (''Docker'', [''Dockerfile'', ''docker-compose.yml'']),
     (''Kubernetes'', [''.yaml'', ''k8s'']),
     (''Terraform'', [''.tf'']),
     (''Streamlit'', [''streamlit'']),
     (''Pytest'', [''pytest.ini'', ''conftest.py'']),
     (''Jest'', [''jest.config.js''])]"

text \<open>
  The detector reads two files again when it parses them. Reading and \<open>json.loads\<close> are
  library code: \<open>read_text p\<close> is the text of the file at \<open>p\<close>, \<open>None\<close> when reading
  raises; \<open>json_deps t\<close> is the list of keys of
  \<open>{**data.get('dependencies', {}), **data.get('devDependencies', {})}\<close> for
  \<open>data = json.loads(t)\<close>, \<open>None\<close> when parsing or merging raises.
\<close>

record file_reader =
  read_text :: "path \<Rightarrow> string option"
  json_deps :: "string \<Rightarrow> string list option"

definition detect_languages :: "scan_result \<Rightarrow> string list" where
  \<comment> \<open>\<open>map_filter\<close> keeps \<open>LANGUAGE_MAP[ext]\<close> for the extensions that are keys\<close>
  "detect_languages r =
     sorted_list_of_set (set (List.map_filter LANGUAGE_MAP (extensions r)))"

fun indicator_loop :: "(string \<times> string list) list \<Rightarrow> path list \<Rightarrow> string set \<Rightarrow> string set" where
  "indicator_loop [] fs frameworks = frameworks"
| "indicator_loop ((framework, indicators) # rest) fs frameworks =
     indicator_loop rest fs
       (if list_ex (\<lambda>indicator. list_ex (\<lambda>f. contains indicator (path_str f)) fs) indicators
        then insert framework frameworks else frameworks)"

definition parse_package_json :: "file_reader \<Rightarrow> scan_result \<Rightarrow> string set" where
  "parse_package_json env r =
     (case special_files r ''package'' of
        None \<Rightarrow> {}
      | Some package_file \<Rightarrow>
          (case read_text env package_file of
             None \<Rightarrow> {}
           | Some text \<Rightarrow>
               (case json_deps env text of
                  None \<Rightarrow> {}
                | Some deps \<Rightarrow>
                    (if ''react'' \<in> set deps then {''React''} else {})
                    \<union> (if ''next'' \<in> set deps then {''Next.js''} else {})
                    \<union> (if ''vue'' \<in> set deps then {''Vue.js''} else {})
                    \<union> (if ''express'' \<in> set deps then {''Express''} else {})
                    \<union> (if ''@angular/core'' \<in> set deps then {''Angular''} else {}))))"

definition parse_requirements :: "file_reader \<Rightarrow> scan_result \<Rightarrow> string set" where
  "parse_requirements env r =
     (case special_files r ''requirements'' of
        None \<Rightarrow> {}
      | Some req_file \<Rightarrow>
          (case read_text env req_file of
             None \<Rightarrow> {}
           | Some text \<Rightarrow>
               (let content = lower text in
                  (if contains ''django'' content then {''Django''} else {})
                  \<union> (if contains ''flask'' content then {''Flask''} else {})
                  \<union> (if contains ''fastapi'' content then {''FastAPI''} else {})
                  \<union> (if contains ''streamlit'' content then {''Streamlit''} else {})
                  \<union> (if contains ''pytest'' content then {''Pytest''} else {}))))"

definition frameworks_set :: "file_reader \<Rightarrow> scan_result \<Rightarrow> string set" where
  \<comment> \<open>the local set \<open>frameworks\<close> of \<open>_detect_frameworks\<close> just before it is sorted\<close>
  "frameworks_set env r =
     indicator_loop FRAMEWORK_INDICATORS (files r) {}
     \<union> (if ''package'' \<in> dom (special_files r) then parse_package_json env r else {})
     \<union> (if ''requirements'' \<in> dom (special_files r) then parse_requirements env r else {})"

definition detect_frameworks :: "file_reader \<Rightarrow> scan_result \<Rightarrow> string list" where
  "detect_frameworks env r = sorted_list_of_set (frameworks_set env r)"

definition package_manager_indicators :: "(string \<times> string list) list" where
  \<comment> \<open>the local dictionary \<open>indicators\<close> of \<open>_detect_package_managers\<close>\<close>
  "package_manager_indicators = [
     (''pip'', [''requirements.txt'', ''setup.py'']),
     (''poetry'', [''pyproject.toml'', ''poetry.lock'']),
     (''npm'', [''package.json'', ''package-lock.json'']),
     (''yarn'', [''yarn.lock'']),
     (''pnpm'', [''pnpm-lock.yaml'']),
     (''cargo'', [''Cargo.toml'']),
     (''go mod'', [''go.mod'']),
     (''maven'', [''pom.xml'']),
     (''gradle'', [''build.gradle''])]"

fun package_manager_loop :: "(string \<times> string list) list \<Rightarrow> string set \<Rightarrow> string list \<Rightarrow> string list" where
  "package_manager_loop [] file_names managers = managers"
| "package_manager_loop ((manager, fs) # rest) file_names managers =
     package_manager_loop rest file_names
       (if list_ex (\<lambda>f. f \<in> file_names) fs then managers @ [manager] else managers)"

definition detect_package_managers :: "scan_result \<Rightarrow> string list" where
  "detect_package_managers r =
     package_manager_loop package_manager_indicators (path_name ` set (files r)) []"

definition detect_tools :: "scan_result \<Rightarrow> string list" where
  "detect_tools r =
     (if ''docker'' \<in> dom (special_files r) then [''Docker''] else [])
     @ (if ''ci'' \<in> dom (special_files r) then [''CI/CD''] else [])
     @ (if list_ex (\<lambda>f. contains ''.yaml'' (path_str f) \<or> contains ''.yml'' (path_str f)) (files r)
        then (if list_ex (\<lambda>f. contains ''k8s'' (path_str f) \<or> contains ''kubernetes'' (path_str f))
                   (files r)
              then [''Kubernetes''] else [])
        else [])
     @ (if ''makefile'' \<in> dom (special_files r) then [''Make''] else [])"

text \<open>
  \<open>_get_primary_language\<close>. The dictionary \<open>lang_counts\<close> keeps insertion order, and
  \<open>max\<close> returns the first item whose count is maximal.
\<close>

definition count_lang :: "(string \<times> nat) list \<Rightarrow> string \<Rightarrow> (string \<times> nat) list" where
  \<comment> \<open>\<open>lang_counts[lang] = lang_counts.get(lang, 0) + 1\<close>\<close>
  "count_lang lang_counts lang =
     (if lang \<in> fst ` set lang_counts
      then map (\<lambda>(k, v). if k = lang then (k, v + 1) else (k, v)) lang_counts
      else lang_counts @ [(lang, 0 + 1)])"

fun count_languages :: "path list \<Rightarrow> (string \<times> nat) list \<Rightarrow> (string \<times> nat) list" where
  "count_languages [] lang_counts = lang_counts"
| "count_languages (file # rest) lang_counts =
     count_languages rest
       (case LANGUAGE_MAP (path_suffix file) of
          None \<Rightarrow> lang_counts
        | Some lang \<Rightarrow> count_lang lang_counts lang)"

fun max_by_count :: "(string \<times> nat) \<Rightarrow> (string \<times> nat) list \<Rightarrow> (string \<times> nat)" where
  "max_by_count best [] = best"
| "max_by_count best (x # xs) = max_by_count (if snd x > snd best then x else best) xs"

definition get_primary_language :: "scan_result \<Rightarrow> string" where
  "get_primary_language r =
     (case count_languages (files r) [] of
        [] \<Rightarrow> ''Unknown''
      | x # xs \<Rightarrow> fst (max_by_count x xs))"

definition has_tests :: "scan_result \<Rightarrow> bool" where
  "has_tests r =
     list_ex (\<lambda>f. list_ex (\<lambda>indicator. contains indicator (lower (path_str f)))
                    [''test'', ''tests'', ''spec'', ''__tests__'', ''pytest'', ''jest''])
       (files r)"

definition has_docs :: "scan_result \<Rightarrow> bool" where
  "has_docs r =
     list_ex (\<lambda>f. list_ex (\<lambda>indicator. contains indicator (path_str f))
                    [''docs'', ''documentation'', ''doc'', ''README''])
       (files r)"

definition has_ci :: "scan_result \<Rightarrow> bool" where
  "has_ci r = (''ci'' \<in> dom (special_files r))"

record tech_info =
  languages :: "string list"
  frameworks :: "string list"
  package_managers :: "string list"
  tools :: "string list"
  primary_language :: string
  has_tests_flag :: bool
  has_docs_flag :: bool
  has_ci_flag :: bool

definition detect :: "file_reader \<Rightarrow> scan_result \<Rightarrow> tech_info" where
  "detect env r =
     \<lparr>languages = detect_languages r,
      frameworks = detect_frameworks env r,
      package_managers = detect_package_managers r,
      tools = detect_tools r,
      primary_language = get_primary_language r,
      has_tests_flag = has_tests r,
      has_docs_flag = has_docs r,
      has_ci_flag = has_ci r\<rparr>"

section \<open>template.py\<close>

text \<open>Characters outside ASCII that the templates use, as their UTF-8 bytes.\<close>

definition u_combining_enclosing_keycap :: string where
  \<comment> \<open>U+20E3, combining enclosing keycap\<close>
  "u_combining_enclosing_keycap = [CHR 0xE2, CHR 0x83, CHR 0xA3]"

definition u_wheel_of_dharma :: string where
  \<comment> \<open>U+2638, wheel of dharma\<close>
  "u_wheel_of_dharma = [CHR 0xE2, CHR 0x98, CHR 0xB8]"

definition u_warning_sign :: string where
  \<comment> \<open>U+26A0, warning sign\<close>
  "u_warning_sign = [CHR 0xE2, CHR 0x9A, CHR 0xA0]"

definition u_high_voltage_sign :: string where
  \<comment> \<open>U+26A1, high voltage sign\<close>
  "u_high_voltage_sign = [CHR 0xE2, CHR 0x9A, CHR 0xA1]"

definition u_white_heavy_check_mark :: string where
  \<comment> \<open>U+2705, white heavy check mark\<close>
  "u_white_heavy_check_mark = [CHR 0xE2, CHR 0x9C, CHR 0x85]"

definition u_sparkles :: string where
  \<comment> \<open>U+2728, sparkles\<close>
  "u_sparkles = [CHR 0xE2, CHR 0x9C, CHR 0xA8]"

definition u_heavy_black_heart :: string where
  \<comment> \<open>U+2764, heavy black heart\<close>
  "u_heavy_black_heart = [CHR 0xE2, CHR 0x9D, CHR 0xA4]"

definition u_upwards_black_arrow :: string where
  \<comment> \<open>U+2B06, upwards black arrow\<close>
  "u_upwards_black_arrow = [CHR 0xE2, CHR 0xAC, CHR 0x86]"

definition u_white_medium_star :: string where
  \<comment> \<open>U+2B50, white medium star\<close>
  "u_white_medium_star = [CHR 0xE2, CHR 0xAD, CHR 0x90]"

definition u_variation_selector_16 :: string where
  \<comment> \<open>U+FE0F, variation selector-16\<close>
  "u_variation_selector_16 = [CHR 0xEF, CHR 0xB8, CHR 0x8F]"

definition u_earth_globe :: string where
  \<comment> \<open>U+1F30D, earth globe europe-africa\<close>
  "u_earth_globe = [CHR 0xF0, CHR 0x9F, CHR 0x8C, CHR 0x8D]"

definition u_globe_with_meridians :: string where
  \<comment> \<open>U+1F310, globe with meridians\<close>
  "u_globe_with_meridians = [CHR 0xF0, CHR 0x9F, CHR 0x8C, CHR 0x90]"

definition u_movie_camera :: string where
  \<comment> \<open>U+1F3A5, movie camera\<close>
  "u_movie_camera = [CHR 0xF0, CHR 0x9F, CHR 0x8E, CHR 0xA5]"

definition u_artist_palette :: string where
  \<comment> \<open>U+1F3A8, artist palette\<close>
  "u_artist_palette = [CHR 0xF0, CHR 0x9F, CHR 0x8E, CHR 0xA8]"

definition u_clapper_board :: string where
  \<comment> \<open>U+1F3AC, clapper board\<close>
  "u_clapper_board = [CHR 0xF0, CHR 0x9F, CHR 0x8E, CHR 0xAC]"

definition u_direct_hit :: string where
  \<comment> \<open>U+1F3AF, direct hit\<close>
  "u_direct_hit = [CHR 0xF0, CHR 0x9F, CHR 0x8E, CHR 0xAF]"

definition u_spouting_whale :: string where
  \<comment> \<open>U+1F433, spouting whale\<close>
  "u_spouting_whale = [CHR 0xF0, CHR 0x9F, CHR 0x90, CHR 0xB3]"

definition u_file_folder :: string where
  \<comment> \<open>U+1F4C1, file folder\<close>
  "u_file_folder = [CHR 0xF0, CHR 0x9F, CHR 0x93, CHR 0x81]"

definition u_page_facing_up :: string where
  \<comment> \<open>U+1F4C4, page facing up\<close>
  "u_page_facing_up = [CHR 0xF0, CHR 0x9F, CHR 0x93, CHR 0x84]"

definition u_open_book :: string where
  \<comment> \<open>U+1F4D6, open book\<close>
  "u_open_book = [CHR 0xF0, CHR 0x9F, CHR 0x93, CHR 0x96]"

definition u_books :: string where
  \<comment> \<open>U+1F4DA, books\<close>
  "u_books = [CHR 0xF0, CHR 0x9F, CHR 0x93, CHR 0x9A]"

definition u_package :: string where
  \<comment> \<open>U+1F4E6, package\<close>
  "u_package = [CHR 0xF0, CHR 0x9F, CHR 0x93, CHR 0xA6]"

definition u_camera_with_flash :: string where
  \<comment> \<open>U+1F4F8, camera with flash\<close>
  "u_camera_with_flash = [CHR 0xF0, CHR 0x9F, CHR 0x93, CHR 0xB8]"

definition u_video_camera :: string where
  \<comment> \<open>U+1F4F9, video camera\<close>
  "u_video_camera = [CHR 0xF0, CHR 0x9F, CHR 0x93, CHR 0xB9]"

definition u_circle_arrows :: string where
  \<comment> \<open>U+1F504, anticlockwise downwards and upwards open circle arrows\<close>
  "u_circle_arrows = [CHR 0xF0, CHR 0x9F, CHR 0x94, CHR 0x84]"

definition u_lock :: string where
  \<comment> \<open>U+1F512, lock\<close>
  "u_lock = [CHR 0xF0, CHR 0x9F, CHR 0x94, CHR 0x92]"

definition u_wrench :: string where
  \<comment> \<open>U+1F527, wrench\<close>
  "u_wrench = [CHR 0xF0, CHR 0x9F, CHR 0x94, CHR 0xA7]"

definition u_world_map :: string where
  \<comment> \<open>U+1F5FA, world map\<close>
  "u_world_map = [CHR 0xF0, CHR 0x9F, CHR 0x97, CHR 0xBA]"

definition u_person_with_folded_hands :: string where
  \<comment> \<open>U+1F64F, person with folded hands\<close>
  "u_person_with_folded_hands = [CHR 0xF0, CHR 0x9F, CHR 0x99, CHR 0x8F]"

definition u_rocket :: string where
  \<comment> \<open>U+1F680, rocket\<close>
  "u_rocket = [CHR 0xF0, CHR 0x9F, CHR 0x9A, CHR 0x80]"

definition u_hammer_and_wrench :: string where
  \<comment> \<open>U+1F6E0, hammer and wrench\<close>
  "u_hammer_and_wrench = [CHR 0xF0, CHR 0x9F, CHR 0x9B, CHR 0xA0]"

definition u_handshake :: string where
  \<comment> \<open>U+1F91D, handshake\<close>
  "u_handshake = [CHR 0xF0, CHR 0x9F, CHR 0xA4, CHR 0x9D]"

definition u_test_tube :: string where
  \<comment> \<open>U+1F9EA, test tube\<close>
  "u_test_tube = [CHR 0xF0, CHR 0x9F, CHR 0xA7, CHR 0xAA]"

text \<open>
  \<open>s.split()\<close> splits at runs of white space and drops empty pieces; \<open>s.split(sep)\<close>
  splits at every occurrence of a non-empty separator.
\<close>

definition is_space :: "char \<Rightarrow> bool" where
  "is_space c = (c \<in> {CHR 0x20, CHR 0x09, CHR 0x0A, CHR 0x0B, CHR 0x0C, CHR 0x0D,
                        CHR 0x1C, CHR 0x1D, CHR 0x1E, CHR 0x1F})"

fun split_ws_loop :: "string \<Rightarrow> string \<Rightarrow> string list" where
  "split_ws_loop acc [] = (if acc = [] then [] else [rev acc])"
| "split_ws_loop acc (c # cs) =
     (if is_space c
      then (if acc = [] then split_ws_loop [] cs else rev acc # split_ws_loop [] cs)
      else split_ws_loop (c # acc) cs)"

definition split_ws :: "string \<Rightarrow> string list" where
  "split_ws s = split_ws_loop [] s"

fun split_str_loop :: "string \<Rightarrow> string \<Rightarrow> string \<Rightarrow> string list" where
  "split_str_loop sep acc [] = [rev acc]"
| "split_str_loop sep acc (c # cs) =
     (if sep \<noteq> [] \<and> prefix sep (c # cs)
      then rev acc # split_str_loop sep [] (drop (length sep) (c # cs))
      else split_str_loop sep (c # acc) cs)"

definition split_str :: "string \<Rightarrow> string \<Rightarrow> string list" where
  "split_str sep s = split_str_loop sep [] s"

definition item_at :: "string list \<Rightarrow> nat \<Rightarrow> string" where
  \<comment> \<open>\<open>xs[i]\<close> at the places where the source has made sure that \<open>i\<close> is in range\<close>
  "item_at xs i = (if i < length xs then xs ! i else [])"

definition get_language_color :: "string \<Rightarrow> string" where
  \<open>get_language_color language =
     (case map_of [
       (''Python'', ''3776AB''),
       (''JavaScript'', ''F7DF1E''),
       (''TypeScript'', ''3178C6''),
       (''Java'', ''ED8B00''),
       (''Go'', ''00ADD8''),
       (''Rust'', ''CE412B''),
       (''C++'', ''00599C''),
       (''C#'', ''239120''),
       (''Ruby'', ''CC342D''),
       (''PHP'', ''777BB4''),
       (''Swift'', ''FA7343''),
       (''Kotlin'', ''7F52FF''),
       (''HTML'', ''E34F26''),
       (''CSS'', ''1572B6'')] language of
        Some color \<Rightarrow> color
      | None \<Rightarrow> ''555555'')\<close>

definition get_framework_color :: "string \<Rightarrow> string" where
  \<open>get_framework_color framework =
     (case map_of [
       (''React'', ''61DAFB''),
       (''Next.js'', ''000000''),
       (''Vue.js'', ''4FC08D''),
       (''Django'', ''092E20''),
       (''Flask'', ''000000''),
       (''FastAPI'', ''009688''),
       (''Express'', ''000000''),
       (''Streamlit'', ''FF4B4B''),
       (''Docker'', ''2496ED'')] framework of
        Some color \<Rightarrow> color
      | None \<Rightarrow> ''6366F1'')\<close>

definition project_slug :: "string \<Rightarrow> string" where
  \<comment> \<open>\<open>self.project_name.lower().replace(' ', '-')\<close>\<close>
  "project_slug pname = replace CHR 0x20 ''-'' (lower pname)"

definition generate_header :: "string \<Rightarrow> string" where
  \<open>generate_header pname = lines [
     ''<div align="center">'',
     [],
     (''# '' @ u_rocket @ '' '') @ pname,
     [],
     ''<p align="center">'',
     (''  <strong>'' @ u_sparkles @ '' Auto-generated README - Customize me! '' @ u_sparkles @ ''</strong>''),
     ''</p>'',
     [],
     ''</div>'']\<close>

definition language_badge :: "string \<Rightarrow> string" where
  \<comment> \<open>the badge appended under \<open># Language badges\<close>\<close>
  \<open>language_badge lang =
     ''!['' @ lang @ ''](https://img.shields.io/badge/'' @ lang @ ''-'' @ get_language_color lang
     @ ''?style=for-the-badge&logo='' @ lower lang @ ''&logoColor=white)''\<close>

definition badges_list :: "string \<Rightarrow> scan_result \<Rightarrow> tech_info \<Rightarrow> string list" where
  \<comment> \<open>the local list \<open>badges\<close> of \<open>_generate_badges\<close>\<close>
  \<open>badges_list pname r t =
     (if primary_language t \<noteq> [] then [language_badge (primary_language t)] else [])
     @ (if ''license'' \<in> dom (special_files r)
        then [''![License](https://img.shields.io/badge/license-MIT-blue?style=for-the-badge)'']
        else [])
     @ [''![GitHub stars](https://img.shields.io/github/stars/yourusername/''
          @ project_slug pname @ ''?style=for-the-badge)'',
        ''![GitHub forks](https://img.shields.io/github/forks/yourusername/''
          @ project_slug pname @ ''?style=for-the-badge)'',
        ''![GitHub issues](https://img.shields.io/github/issues/yourusername/''
          @ project_slug pname @ ''?style=for-the-badge)'']
     @ (if has_ci_flag t
        then [''![Build](https://img.shields.io/badge/build-passing-brightgreen?style=for-the-badge)'']
        else [])
     @ (if has_tests_flag t
        then [''![Coverage](https://img.shields.io/badge/coverage-85%25-green?style=for-the-badge)'']
        else [])\<close>

definition generate_badges :: "string \<Rightarrow> scan_result \<Rightarrow> tech_info \<Rightarrow> string" where
  \<open>generate_badges pname r t =
     (let badges = badges_list pname r t in
      lines [
        ''<div align="center">'',
        [],
        join '' '' (take 4 badges),
        [],
        (if length badges > 4 then join '' '' (drop 4 badges) else []),
        [],
        ''</div>''])\<close>

definition generate_highlights :: "tech_info \<Rightarrow> string" where
  \<open>generate_highlights t =
     (let highlights =
            (if has_tests_flag t
             then [(u_test_tube @ '' **Test Coverage** - Comprehensive test suite included'')] else [])
            @ (if has_ci_flag t
               then [(u_circle_arrows @ '' **CI/CD** - Automated testing and deployment'')] else [])
            @ (if ''Docker'' \<in> set (tools t)
               then [(u_spouting_whale @ '' **Containerized** - Docker support for easy deployment'')] else [])
            @ (if has_docs_flag t
               then [(u_books @ '' **Well Documented** - Clear documentation and examples'')] else [])
            @ (if length (languages t) > 1
               then [(u_globe_with_meridians @ '' **Multi-language** - Uses '') @ str_of_nat (length (languages t))
                     @ '' programming languages'']
               else []);
          highlights' =
            (if highlights = []
             then [(u_high_voltage_sign @ '' **Fast & Efficient** - Optimized for performance''),
                   (u_artist_palette @ '' **Modern Stack** - Built with latest technologies''),
                   (u_wrench @ '' **Customizable** - Easy to extend and modify'')]
             else highlights)
      in join nl (map (\<lambda>h. ''- '' @ h) highlights'))\<close>

definition generate_description :: "tech_info \<Rightarrow> string" where
  \<open>generate_description t =
     (let primary_lang = primary_language t;
          description =
            ''A powerful '' @ primary_lang @ '' project''
            @ (if frameworks t \<noteq> []
               then '' built with **'' @ join '', '' (take 3 (frameworks t)) @ ''**''
               else [])
            @ (''. '' @ u_direct_hit)
      in lines [
        (''## '' @ u_open_book @ '' About''),
        [],
        description,
        [],
        (''> '' @ u_warning_sign @ u_variation_selector_16 @ '' **Note:** This README was auto-generated using [README Generator](https://github.com/alxgraphy/readme-generator). ''),
        (''> Please customize it with your project'' @ [CHR 0x27] @ ''s actual description, screenshots, and details!''),
        [],
        (''### '' @ u_sparkles @ '' Highlights''),
        [],
        generate_highlights t])\<close>

definition generate_demo_section :: string where
  \<open>generate_demo_section = lines [
       (''## '' @ u_clapper_board @ '' Demo''),
       [],
       ''<div align="center">'',
       [],
       (''### '' @ u_camera_with_flash @ '' Screenshots''),
       [],
       ''<table>'',
       ''  <tr>'',
       ''    <td><img src="screenshots/demo1.png" alt="Screenshot 1" width="400"/></td>'',
       ''    <td><img src="screenshots/demo2.png" alt="Screenshot 2" width="400"/></td>'',
       ''  </tr>'',
       ''  <tr>'',
       ''    <td align="center"><em>Main Interface</em></td>'',
       ''    <td align="center"><em>Feature Showcase</em></td>'',
       ''  </tr>'',
       ''</table>'',
       [],
       (''> '' @ u_movie_camera @ '' **[Live Demo](#)** | '' @ u_video_camera @ '' **[Video Tutorial](#)**''),
       [],
       ''</div>'',
       [],
       ''---'']\<close>

fun features_grid_loop :: "nat \<Rightarrow> string list \<Rightarrow> string \<Rightarrow> string" where
  \<open>features_grid_loop i [] grid = grid\<close>
| \<open>features_grid_loop i (feature # rest) grid =
     (let grid1 = (if i > 0 \<and> i mod 2 = 0 then grid @ ''</tr>'' @ nl @ ''<tr>'' @ nl else grid);
          emoji = item_at (split_ws feature) 0;
          text = join '' '' (drop 1 (split_ws feature));
          grid2 = grid1 @ ''<td width="50%">'' @ nl @ nl @ ''**'' @ emoji @ '' ''
                  @ item_at (split_str '' - '' text) 0 @ ''**'' @ nl @ nl;
          grid3 = (if contains '' - '' text
                   then grid2 @ ''<br/>'' @ item_at (split_str '' - '' text) 1 @ nl @ nl
                   else grid2)
      in features_grid_loop (i + 1) rest (grid3 @ ''</td>'' @ nl))\<close>

definition create_features_grid :: "string list \<Rightarrow> string" where
  \<open>create_features_grid features =
     (let grid = features_grid_loop 0 features (''<table>'' @ nl @ ''<tr>'' @ nl);
          grid' = (if length features mod 2 \<noteq> 0 then grid @ ''<td></td>'' @ nl else grid)
      in grid' @ ''</tr>'' @ nl @ ''</table>'')\<close>

definition features_list :: "tech_info \<Rightarrow> string list" where
  \<comment> \<open>the local list \<open>features\<close> of \<open>_generate_features\<close>, after the cut to six\<close>
  \<open>features_list t =
     (let features =
            (if has_tests_flag t
             then [(u_white_heavy_check_mark @ '' Comprehensive test coverage with automated testing'')] else [])
            @ (if has_ci_flag t
               then [(u_circle_arrows @ '' Continuous Integration and Deployment pipeline'')] else [])
            @ (if has_docs_flag t
               then [(u_books @ '' Well-documented codebase with inline comments'')] else [])
            @ (if ''Docker'' \<in> set (tools t)
               then [(u_spouting_whale @ '' Docker containerization for easy deployment'')] else [])
            @ (if ''Kubernetes'' \<in> set (tools t)
               then [(u_wheel_of_dharma @ u_variation_selector_16 @ '' Kubernetes orchestration support'')] else []);
          features' =
            (if length features < 3
             then features @ [
                    (u_rocket @ '' High performance and scalability''),
                    (u_lock @ '' Secure by design with best practices''),
                    (u_artist_palette @ '' Clean and maintainable code architecture''),
                    (u_high_voltage_sign @ '' Fast development with hot reload''),
                    (u_earth_globe @ '' Cross-platform compatibility'')]
             else features)
      in take 6 features')\<close>

definition generate_features :: "tech_info \<Rightarrow> string" where
  \<open>generate_features t = lines [
     (''## '' @ u_sparkles @ '' Features''),
     [],
     create_features_grid (features_list t)]\<close>

definition tech_stack_lines :: "tech_info \<Rightarrow> string list" where
  \<comment> \<open>the local list \<open>lines\<close> of \<open>_generate_tech_stack\<close>\<close>
  \<open>tech_stack_lines t =
     [(''## '' @ u_hammer_and_wrench @ u_variation_selector_16 @ '' Tech Stack'')]
     @ (if languages t \<noteq> []
        then [nl @ ''### Languages'',
              join '' '' (map (\<lambda>lang.
                ''!['' @ lang @ ''](https://img.shields.io/badge/'' @ lang @ ''-''
                @ get_language_color lang @ ''?style=flat-square&logo='' @ lower lang
                @ ''&logoColor=white)'') (languages t))]
        else [])
     @ (if frameworks t \<noteq> []
        then [nl @ ''### Frameworks & Libraries'',
              join '' '' (map (\<lambda>fw.
                ''!['' @ fw @ ''](https://img.shields.io/badge/'' @ fw @ ''-''
                @ get_framework_color fw @ ''?style=flat-square&logo=''
                @ replace CHR 0x20 [] (replace CHR ''.'' [] (lower fw))
                @ ''&logoColor=white)'') (frameworks t))]
        else [])
     @ (if tools t \<noteq> []
        then [nl @ ''### Tools & Platforms'',
              join '' '' (map (\<lambda>tool.
                ''!['' @ tool @ ''](https://img.shields.io/badge/'' @ tool @ ''-''
                @ ''2496ED'' @ ''?style=flat-square&logo='' @ lower tool
                @ ''&logoColor=white)'') (tools t))]
        else [])\<close>

definition generate_tech_stack :: "tech_info \<Rightarrow> string" where
  \<open>generate_tech_stack t =
     (if length (tech_stack_lines t) > 1 then join nl (tech_stack_lines t) else [])\<close>

definition generate_quick_start :: "string \<Rightarrow> tech_info \<Rightarrow> string" where
  \<open>generate_quick_start pname t =
     (let managers = package_managers t;
          quick_commands =
            [''# Clone the repository'',
             ''git clone https://github.com/yourusername/'' @ project_slug pname @ ''.git'',
             []]
            @ (if ''npm'' \<in> set managers
               then [''# Install dependencies'',
                     ''npm install'',
                     [],
                     ''# Run the project'',
                     ''npm start'']
               else if ''pip'' \<in> set managers
               then [''# Install dependencies'',
                     ''pip install -r requirements.txt'',
                     [],
                     ''# Run the project'',
                     ''python main.py'']
               else [''# Follow installation instructions below''])
      in lines [
        (''## '' @ u_high_voltage_sign @ '' Quick Start''),
        [],
        ''```bash'',
        join nl quick_commands,
        ''```''])\<close>

definition generate_installation :: "string \<Rightarrow> tech_info \<Rightarrow> string" where
  \<open>generate_installation pname t =
     (let managers = package_managers t;
          primary_lang = primary_language t;
          prereqs =
            (if ''Node.js'' \<in> set (frameworks t) \<or> ''npm'' \<in> set managers
             then [''- Node.js 16.x or higher''] else [])
            @ (if primary_lang = ''Python'' then [''- Python 3.8 or higher''] else [])
            @ (if ''Docker'' \<in> set (tools t) then [''- Docker and Docker Compose''] else [])
            @ (if ''go mod'' \<in> set managers then [''- Go 1.20 or higher''] else []);
          prereqs' =
            (if prereqs = [] then [''- '' @ primary_lang @ '' (latest stable version)'']
             else prereqs)
      in join nl (
        [(''## '' @ u_package @ '' Installation''),
         nl @ ''### Prerequisites'',
         join nl prereqs',
         nl @ ''### Step-by-Step Guide'',
         nl @ (''**1'' @ u_variation_selector_16 @ u_combining_enclosing_keycap @ '' Clone the repository**''),
         ''```bash'',
         ''git clone https://github.com/yourusername/'' @ project_slug pname @ ''.git'',
         ''cd '' @ project_slug pname,
         ''```'']
        @ (if ''pip'' \<in> set managers
           then [nl @ (''**2'' @ u_variation_selector_16 @ u_combining_enclosing_keycap @ '' Create virtual environment (recommended)**''),
                 ''```bash'',
                 ''python -m venv venv'',
                 (''source venv/bin/activate  # On Windows: venv'' @ [CHR 0x5C] @ ''Scripts'' @ [CHR 0x5C] @ ''activate''),
                 ''```'',
                 nl @ (''**3'' @ u_variation_selector_16 @ u_combining_enclosing_keycap @ '' Install dependencies**''),
                 ''```bash'',
                 ''pip install -r requirements.txt'',
                 ''```'']
           else if ''poetry'' \<in> set managers
           then [nl @ (''**2'' @ u_variation_selector_16 @ u_combining_enclosing_keycap @ '' Install dependencies with Poetry**''),
                 ''```bash'',
                 ''poetry install'',
                 ''```'']
           else if ''npm'' \<in> set managers
           then [nl @ (''**2'' @ u_variation_selector_16 @ u_combining_enclosing_keycap @ '' Install dependencies**''),
                 ''```bash'',
                 ''npm install'',
                 ''# or'',
                 ''yarn install'',
                 ''```'']
           else if ''cargo'' \<in> set managers
           then [nl @ (''**2'' @ u_variation_selector_16 @ u_combining_enclosing_keycap @ '' Build the project**''),
                 ''```bash'',
                 ''cargo build --release'',
                 ''```'']
           else if ''go mod'' \<in> set managers
           then [nl @ (''**2'' @ u_variation_selector_16 @ u_combining_enclosing_keycap @ '' Download dependencies**''),
                 ''```bash'',
                 ''go mod download'',
                 ''```'']
           else [])
        @ [nl @ (''**4'' @ u_variation_selector_16 @ u_combining_enclosing_keycap @ '' Set up environment variables**''),
           ''```bash'',
           ''cp .env.example .env'',
           ''# Edit .env with your configuration'',
           ''```'']))\<close>

definition generate_usage :: "tech_info \<Rightarrow> string" where
  \<open>generate_usage t =
     (let primary_lang = primary_language t;
          fws = set (frameworks t)
      in join nl (
        [(''## '' @ u_rocket @ '' Usage''),
         nl @ ''### Basic Usage'']
        @ (if ''Django'' \<in> fws
           then [''```bash'',
                 ''# Run migrations'',
                 ''python manage.py migrate'',
                 [],
                 ''# Create superuser'',
                 ''python manage.py createsuperuser'',
                 [],
                 ''# Run development server'',
                 ''python manage.py runserver'',
                 ''```'',
                 nl @ ''Visit `http://localhost:8000` in your browser'']
           else if ''Flask'' \<in> fws \<or> ''FastAPI'' \<in> fws
           then [''```bash'',
                 ''# Run the application'',
                 ''python app.py'',
                 ''# or'',
                 ''uvicorn main:app --reload  # For FastAPI'',
                 ''```'',
                 nl @ ''API will be available at `http://localhost:8000`'']
           else if ''Streamlit'' \<in> fws
           then [''```bash'',
                 ''streamlit run app.py'',
                 ''```'',
                 nl @ ''App will open in your browser automatically'']
           else if ''React'' \<in> fws \<or> ''Next.js'' \<in> fws
           then [''```bash'',
                 ''# Development mode'',
                 ''npm run dev'',
                 [],
                 ''# Build for production'',
                 ''npm run build'',
                 [],
                 ''# Start production server'',
                 ''npm start'',
                 ''```'',
                 nl @ ''Open `http://localhost:3000`'']
           else [''```bash'',
                 ''# Run the application'',
                 (if primary_lang = ''Python'' then ''python main.py''
                  else if primary_lang = ''Go'' then ''go run main.go''
                  else if primary_lang = ''Rust'' then ''cargo run''
                  else if primary_lang = ''Node.js'' \<or> primary_lang = ''JavaScript'' then ''npm start''
                  else ''# See documentation for usage instructions''),
                 ''```''])
        @ [nl @ ''### Examples'',
           nl @ ''```bash'',
           ''# Example 1: Basic usage'',
           ''# Add your example here'',
           [],
           ''# Example 2: Advanced usage'',
           ''# Add your example here'',
           ''```'']))\<close>

definition explain_structure :: "scan_result \<Rightarrow> string" where
  \<open>explain_structure r =
     (let explanations =
            (if list_ex (\<lambda>d. contains ''src'' (path_str d)) (directories r)
             then [''- **`src/`** - Source code and main application logic''] else [])
            @ (if list_ex (\<lambda>d. contains ''test'' (lower (path_str d))) (directories r)
               then [''- **`tests/`** - Test files and test utilities''] else [])
            @ (if list_ex (\<lambda>d. contains ''doc'' (lower (path_str d))) (directories r)
               then [''- **`docs/`** - Documentation files''] else [])
            @ (if list_ex (\<lambda>d. contains ''config'' (lower (path_str d))) (directories r)
               then [''- **`config/`** - Configuration files''] else []);
          explanations' =
            (if explanations = []
             then [''- See code structure above for file organization'']
             else explanations)
      in join nl explanations')\<close>

definition generate_project_structure :: "scan_result \<Rightarrow> string" where
  \<open>generate_project_structure r = lines [
     (''## '' @ u_file_folder @ '' Project Structure''),
     [],
     ''```'',
     file_tree r,
     ''```'',
     [],
     ''### Key Directories'',
     [],
     explain_structure r]\<close>

definition generate_roadmap :: string where
  \<open>generate_roadmap = lines [
       (''## '' @ u_world_map @ u_variation_selector_16 @ '' Roadmap''),
       [],
       ''- [x] Initial release'',
       ''- [ ] Add feature X'',
       ''- [ ] Improve performance'',
       ''- [ ] Add more documentation'',
       ''- [ ] Add integration tests'',
       ''- [ ] Release v2.0'',
       [],
       ''See the [open issues](https://github.com/yourusername/project/issues) for a full list of proposed features.'']\<close>

definition generate_contributing :: string where
  \<open>generate_contributing = lines [
       (''## '' @ u_handshake @ '' Contributing''),
       [],
       ''Contributions make the open source community amazing! Any contributions you make are **greatly appreciated**.'',
       [],
       ''### How to Contribute'',
       [],
       ''1. **Fork** the Project'',
       ''2. **Create** your Feature Branch (`git checkout -b feature/AmazingFeature`)'',
       (''3. **Commit** your Changes (`git commit -m '' @ [CHR 0x27] @ ''Add some AmazingFeature'' @ [CHR 0x27] @ ''`)''),
       ''4. **Push** to the Branch (`git push origin feature/AmazingFeature`)'',
       ''5. **Open** a Pull Request'',
       [],
       ''### Development Guidelines'',
       [],
       ''- Write clear, commented code'',
       ''- Follow the existing code style'',
       ''- Add tests for new features'',
       ''- Update documentation as needed'',
       [],
       ''### Code of Conduct'',
       [],
       ''Please read our [Code of Conduct](CODE_OF_CONDUCT.md) before contributing.'']\<close>

definition license_present_text :: string where
  \<comment> \<open>the string returned by the first branch of \<open>_generate_license\<close>\<close>
  \<open>license_present_text = lines [
       (''## '' @ u_page_facing_up @ '' License''),
       [],
       ''Distributed under the MIT License. See `LICENSE` file for more information.'']\<close>

definition license_absent_text :: string where
  \<comment> \<open>the string returned by the \<open>else\<close> branch of \<open>_generate_license\<close>\<close>
  \<open>license_absent_text = lines [
       (''## '' @ u_page_facing_up @ '' License''),
       [],
       ''This project is unlicensed. Please add a LICENSE file to specify terms of use.'',
       [],
       ''Recommended licenses:'',
       ''- [MIT License](https://opensource.org/licenses/MIT) - Permissive'',
       ''- [GPL v3](https://www.gnu.org/licenses/gpl-3.0.en.html) - Copyleft'',
       ''- [Apache 2.0](https://opensource.org/licenses/Apache-2.0) - Permissive with patent grant'']\<close>

definition generate_license :: "scan_result \<Rightarrow> string" where
  "generate_license r =
     (if ''license'' \<in> dom (special_files r) then license_present_text else license_absent_text)"

definition generate_acknowledgments :: string where
  \<open>generate_acknowledgments = lines [
       (''## '' @ u_person_with_folded_hands @ '' Acknowledgments''),
       [],
       ''- Thanks to all contributors'',
       ''- Inspired by awesome open source projects'',
       ''- Built with amazing tools and frameworks'']\<close>

definition generate_footer :: string where
  \<open>generate_footer = lines [
       ''---'',
       [],
       ''<div align="center">'',
       [],
       (''**'' @ u_white_medium_star @ '' Star this repo if you find it helpful! '' @ u_white_medium_star @ ''**''),
       [],
       (''Made with '' @ u_heavy_black_heart @ u_variation_selector_16 @ '' by [Your Name](https://github.com/yourusername)''),
       [],
       (''**['' @ u_upwards_black_arrow @ '' Back to Top](#-project-name)**''),
       [],
       ''*Auto-generated using [README Generator](https://github.com/alxgraphy/readme-generator)*'',
       [],
       ''</div>'']\<close>

definition sections :: "string \<Rightarrow> scan_result \<Rightarrow> tech_info \<Rightarrow> string list" where
  \<comment> \<open>the local list \<open>sections\<close> of \<open>generate\<close>\<close>
  "sections pname r t = [
     generate_header pname,
     generate_badges pname r t,
     generate_description t,
     generate_demo_section,
     generate_features t,
     generate_tech_stack t,
     generate_quick_start pname t,
     generate_installation pname t,
     generate_usage t,
     generate_project_structure r,
     generate_roadmap,
     generate_contributing,
     generate_license r,
     generate_acknowledgments,
     generate_footer]"

definition generate :: "string \<Rightarrow> scan_result \<Rightarrow> tech_info \<Rightarrow> string" where
  \<comment> \<open>\<open>filter(None, sections)\<close> keeps the non-empty strings\<close>
  "generate pname r t =
     join (nl @ nl) (filter (\<lambda>s. s \<noteq> []) (sections pname r t))"

section \<open>enhancer.py\<close>

text \<open>
  What lies outside the program: the process environment (\<open>os.environ\<close>), whether the
  \<open>anthropic\<close> package can be imported, and the remote service, which answers a request
  with a message or by raising an exception (a subclass of \<open>Exception\<close>, with its text).
  A content block of a message either has a \<open>text\<close> attribute or is of another class.
  The effects of the program are the requests it sends and the lines it prints.
\<close>

record request =
  model :: string
  max_tokens :: nat
  messages :: "(string \<times> string) list"

datatype content_block = TextBlock string | OtherBlock string

datatype api_outcome = Raises string | Message "content_block list"

record service =
  anthropic_installed :: bool
  messages_create :: "request \<Rightarrow> api_outcome"

record effects =
  api_calls :: "request list"
  stdout :: "string list"

record enhancer =
  api_key :: string

definition AIEnhancer :: "(string \<rightharpoonup> string) \<Rightarrow> effects \<Rightarrow> (error + enhancer) \<times> effects" where
  \<comment> \<open>\<open>__init__\<close>: \<open>not self.api_key\<close> holds for a missing and for an empty value\<close>
  \<open>AIEnhancer environ w =
     (case environ ''ANTHROPIC_API_KEY'' of
        None \<Rightarrow> (Inl ValueError, w)
      | Some key \<Rightarrow> if key = [] then (Inl ValueError, w) else (Inr \<lparr>api_key = key\<rparr>, w))\<close>

definition str_of_bool :: "bool \<Rightarrow> string" where
  "str_of_bool b = (if b then ''True'' else ''False'')"

definition prepare_context :: "scan_result \<Rightarrow> tech_info \<Rightarrow> string" where
  \<open>prepare_context r t =
     join nl (
       [''- Primary Language: '' @ primary_language t]
       @ (if languages t \<noteq> [] then [''- Languages: '' @ join '', '' (languages t)] else [])
       @ (if frameworks t \<noteq> [] then [''- Frameworks: '' @ join '', '' (frameworks t)] else [])
       @ (if package_managers t \<noteq> []
          then [''- Package Managers: '' @ join '', '' (package_managers t)] else [])
       @ [''- File Count: '' @ str_of_nat (file_count r),
          ''- Has Tests: '' @ str_of_bool (has_tests_flag t),
          ''- Has CI/CD: '' @ str_of_bool (has_ci_flag t)])\<close>

definition make_prompt :: "string \<Rightarrow> string \<Rightarrow> string" where
  \<comment> \<open>the f-string \<open>prompt\<close> of \<open>enhance\<close>\<close>
  \<open>make_prompt readme_content context = lines [
     ''You are a technical writer helping to improve a README file.'',
     [],
     (''Here'' @ [CHR 0x27] @ ''s the auto-generated README:''),
     [],
     readme_content,
     [],
     ''Project context:'',
     context,
     [],
     ''Please improve this README by:'',
     ''1. Writing a compelling, professional project description (2-3 sentences)'',
     ''2. Suggesting 3-5 realistic features based on the detected technologies'',
     ''3. Making the overall tone more engaging and clear'',
     [],
     ''Keep the same structure and sections, just improve the content. Do not add new sections.'',
     ''Return ONLY the improved README content, no explanations.'']\<close>

definition make_request :: "string \<Rightarrow> scan_result \<Rightarrow> tech_info \<Rightarrow> request" where
  \<comment> \<open>the arguments of \<open>client.messages.create\<close>\<close>
  \<open>make_request readme_content r t =
     \<lparr>model = ''claude-sonnet-4-20250514'',
      max_tokens = 2000,
      messages = [(''user'', make_prompt readme_content (prepare_context r t))]\<rparr>\<close>

definition failure_lines :: "string \<Rightarrow> string list" where
  \<comment> \<open>the two lines printed by the \<open>except Exception as e\<close> handler\<close>
  \<open>failure_lines e =
     [''Warning: AI enhancement failed: '' @ e, ''Returning original README content'']\<close>

definition enhance ::
  "enhancer \<Rightarrow> service \<Rightarrow> string \<Rightarrow> scan_result \<Rightarrow> tech_info \<Rightarrow> effects
     \<Rightarrow> (error + string) \<times> effects" where
  \<open>enhance self svc readme_content r t w =
     (if \<not> anthropic_installed svc then (Inl ImportError, w)
      else
        let req = make_request readme_content r t;
            w1 = w\<lparr>api_calls := api_calls w @ [req]\<rparr>
        in case messages_create svc req of
             Raises e \<Rightarrow>
               (Inr readme_content, w1\<lparr>stdout := stdout w1 @ failure_lines e\<rparr>)
           | Message [] \<Rightarrow>
               (Inr readme_content,
                w1\<lparr>stdout := stdout w1 @ failure_lines ''list index out of range''\<rparr>)
           | Message (OtherBlock cls # _) \<Rightarrow>
               (Inr readme_content,
                w1\<lparr>stdout := stdout w1
                   @ failure_lines ([CHR 0x27] @ cls @ [CHR 0x27]
                       @ '' object has no attribute '' @ [CHR 0x27] @ ''text'' @ [CHR 0x27])\<rparr>)
           | Message (TextBlock enhanced_content # _) \<Rightarrow> (Inr enhanced_content, w1))\<close>

definition remote_call_fails :: "api_outcome \<Rightarrow> bool" where
  \<comment> \<open>an exception reaches the handler: the call raised, or the response has no first
      block, or its first block has no text\<close>
  "remote_call_fails outcome =
     (case outcome of
        Raises e \<Rightarrow> True
      | Message [] \<Rightarrow> True
      | Message (OtherBlock cls # rest) \<Rightarrow> True
      | Message (TextBlock enhanced_content # rest) \<Rightarrow> False)"

section \<open>Example inputs\<close>

text \<open>
  Concrete trees, results and services at which the theorems below are instantiated, and
  names for the values an empty project yields.
\<close>

definition demo_tree :: fsnode where
  "demo_tree = Folder [
     (''.git'', Folder [(''config'', File)]),
     (''.env.example'', File),
     (''.hidden'', File),
     (''yarn.lock'', File),
     (''app.py'', File),
     (''node_modules'', Folder [(''x.js'', File)]),
     (''src'', Folder [(''main.py'', File), (''.cache'', Folder [])])]"

definition demo_path :: path where
  "demo_path = \<lparr>is_absolute = True, names = [''home'', ''proj'']\<rparr>"

definition demo_result :: scan_result where
  \<comment> \<open>a scan result written by hand: a project holding \<open>LICENSE\<close> and \<open>app.py\<close>\<close>
  "demo_result =
     \<lparr>project_path = demo_path,
      project_name = ''proj'',
      files = [descend demo_path [''LICENSE''], descend demo_path [''app.py'']],
      directories = [],
      file_count = 2,
      dir_count = 0,
      extensions = [''.py''],
      file_tree = [],
      special_files = [''license'' \<mapsto> descend demo_path [''LICENSE'']]\<rparr>"

definition demo_info :: tech_info where
  "demo_info =
     \<lparr>languages = [''Python''],
      frameworks = [''Flask''],
      package_managers = [],
      tools = [],
      primary_language = ''Python'',
      has_tests_flag = False,
      has_docs_flag = False,
      has_ci_flag = False\<rparr>"

definition failing_service :: service where
  "failing_service =
     \<lparr>anthropic_installed = True, messages_create = (\<lambda>req. Raises ''Connection error.'')\<rparr>"

definition no_effects :: effects where
  "no_effects = \<lparr>api_calls = [], stdout = []\<rparr>"

definition npm_result :: scan_result where
  \<comment> \<open>a scan result written by hand: a project holding only \<open>package.json\<close>\<close>
  "npm_result =
     \<lparr>project_path = demo_path,
      project_name = ''proj'',
      files = [descend demo_path [''package.json'']],
      directories = [],
      file_count = 1,
      dir_count = 0,
      extensions = [''.json''],
      file_tree = [],
      special_files = [''package'' \<mapsto> descend demo_path [''package.json'']]\<rparr>"

definition empty_manifest_reader :: file_reader where
  \<comment> \<open>every file reads as \<open>{}\<close>, a manifest without dependencies\<close>
  "empty_manifest_reader = \<lparr>read_text = (\<lambda>p. Some ''{}''), json_deps = (\<lambda>t. Some [])\<rparr>"


definition k8s_tree :: fsnode where
  "k8s_tree = Folder [(''notes.yaml'', File), (''k8s.txt'', File)]"

definition k8s_path :: path where
  "k8s_path = \<lparr>is_absolute = False, names = [''proj'']\<rparr>"

definition yaml_and_k8s_path :: "path \<Rightarrow> bool" where
  \<comment> \<open>one path that has a YAML extension and contains a Kubernetes-related substring\<close>
  "yaml_and_k8s_path f =
     (path_suffix f \<in> {''.yaml'', ''.yml''}
      \<and> (contains ''k8s'' (path_str f) \<or> contains ''kubernetes'' (path_str f)))"

definition empty_result :: "path \<Rightarrow> scan_result" where
  \<comment> \<open>what \<open>scan\<close> returns for an empty directory at \<open>p\<close>\<close>
  "empty_result p =
     \<lparr>project_path = p,
      project_name = path_name p,
      files = [],
      directories = [],
      file_count = 0,
      dir_count = 0,
      extensions = [],
      file_tree = path_name p @ ''/'',
      special_files = Map.empty\<rparr>"

definition unknown_info :: tech_info where
  \<comment> \<open>what \<open>detect\<close> returns when nothing is detected\<close>
  "unknown_info =
     \<lparr>languages = [],
      frameworks = [],
      package_managers = [],
      tools = [],
      primary_language = ''Unknown'',
      has_tests_flag = False,
      has_docs_flag = False,
      has_ci_flag = False\<rparr>"


section \<open>The scanner: how a scan changes the scanner's state\<close>

lemma path_name_child [simp]: "path_name (child p n) = n"
  by (simp add: path_name_def child_def)

lemma scan_recursive_cases:
  "scan_recursive (Dir readable searchable items) p d m s =
     (if d > m \<or> \<not> readable then Inr s else scan_items searchable items p d m s)"
  "scan_recursive Denied p d m s = Inr s"
  "scan_recursive File p d m s = (if d > m then Inr s else Inl NotADirectoryError)"
  "scan_recursive Special p d m s = (if d > m then Inr s else Inl NotADirectoryError)"
  "scan_recursive Dangling p d m s = (if d > m then Inr s else Inl FileNotFoundError)"
  by simp_all

lemma scan_items_Cons:
  "scan_items searchable ((n, node) # rest) p d m s =
     (if excluded n then scan_items searchable rest p d m s
      else if stat_raises searchable node then Inr s
      else if is_file node
        then scan_items searchable rest p d m
               (s\<lparr>self_files := self_files s @ [child p n],
                  self_file_extensions :=
                    (if path_suffix (child p n) \<noteq> []
                     then insert (path_suffix (child p n)) (self_file_extensions s)
                     else self_file_extensions s)\<rparr>)
      else if is_dir node
        then (case scan_recursive node (child p n) (Suc d) m
                     (s\<lparr>self_directories := self_directories s @ [child p n]\<rparr>) of
                Inl e \<Rightarrow> Inl e
              | Inr s' \<Rightarrow> scan_items searchable rest p d m s')
      else scan_items searchable rest p d m s)"
  by (simp add: Let_def excluded_def del: scan_recursive.simps)

lemmas [simp del] = scan_recursive.simps scan_items.simps(2)

lemma tree_induct [case_names Nil Cons Dir File Special Dangling Denied]:
  assumes nil: "Q []"
    and cons: "\<And>n c rest. P c \<Longrightarrow> Q rest \<Longrightarrow> Q ((n, c) # rest)"
    and dir: "\<And>readable searchable items. Q items \<Longrightarrow> P (Dir readable searchable items)"
    and others: "P File" "P Special" "P Dangling" "P Denied"
  shows "P node" and "Q items"
proof -
  have list: "Q xs" if "\<And>n c. (n, c) \<in> set xs \<Longrightarrow> P c" for xs
    using that
  proof (induction xs)
    case Nil
    show ?case by (rule nil)
  next
    case (Cons a xs)
    obtain n c where a: "a = (n, c)" by (cases a)
    have "P c" using Cons.prems[of n c] a by simp
    moreover have "Q xs" by (rule Cons.IH) (use Cons.prems in auto)
    ultimately show ?case unfolding a by (rule cons)
  qed
  show node: "P node" for node
  proof (induction node)
    case (Dir readable searchable x)
    have "P c" if "(n, c) \<in> set x" for n c
      using Dir[of "(n, c)" c] that by simp
    then show ?case by (intro dir list)
  qed (rule others)+
  show "Q items" by (rule list) (rule node)
qed

lemma scan_success:
  "is_dir node \<longrightarrow> (\<forall>p d s. \<exists>s'. scan_recursive node p d m s = Inr s')"
  "\<forall>sx p d s. \<exists>s'. scan_items sx items p d m s = Inr s'"
proof (induction node and items rule: tree_induct)
  case (Cons n c rest)
  show ?case
  proof (intro allI)
    fix sx p d s
    have rest: "\<exists>s'. scan_items sx rest p d m t = Inr s'" for t
      using Cons(2) by blast
    show "\<exists>s'. scan_items sx ((n, c) # rest) p d m s = Inr s'"
    proof (cases "\<not> excluded n \<and> \<not> stat_raises sx c \<and> \<not> is_file c \<and> is_dir c")
      case True
      then obtain t where "scan_recursive c (child p n) (Suc d) m
          (s\<lparr>self_directories := self_directories s @ [child p n]\<rparr>) = Inr t"
        using Cons(1) by blast
      then show ?thesis using True rest[of t] by (simp add: scan_items_Cons)
    next
      case False
      then show ?thesis using rest by (auto simp: scan_items_Cons)
    qed
  qed
qed (simp_all add: scan_recursive_cases)

lemma scan_invariant:
  assumes step_file: "\<And>s q n. I s \<Longrightarrow> \<not> excluded n \<Longrightarrow> under p0 q \<Longrightarrow>
      I (s\<lparr>self_files := self_files s @ [child q n],
           self_file_extensions :=
             (if path_suffix (child q n) \<noteq> []
              then insert (path_suffix (child q n)) (self_file_extensions s)
              else self_file_extensions s)\<rparr>)"
    and step_dir: "\<And>s q n. I s \<Longrightarrow> \<not> excluded n \<Longrightarrow> under p0 q \<Longrightarrow>
      I (s\<lparr>self_directories := self_directories s @ [child q n]\<rparr>)"
  shows "\<forall>p d s s'. I s \<longrightarrow> under p0 p \<longrightarrow> scan_recursive node p d m s = Inr s' \<longrightarrow> I s'"
    and "\<forall>sx p d s s'. I s \<longrightarrow> under p0 p \<longrightarrow> scan_items sx items p d m s = Inr s' \<longrightarrow> I s'"
proof (induction node and items rule: tree_induct)
  case (Cons n c rest)
  show ?case
  proof (intro allI impI)
    fix sx p d s s'
    assume I: "I s" and p: "under p0 p"
      and run: "scan_items sx ((n, c) # rest) p d m s = Inr s'"
    have up: "under p0 (child p n)"
      using p by (simp add: under_def child_def)
    have rest: "I t \<Longrightarrow> scan_items sx rest p d m t = Inr s' \<Longrightarrow> I s'" for t
      using Cons(2) p by blast
    have sub: "I t \<Longrightarrow> scan_recursive c (child p n) (Suc d) m t = Inr t' \<Longrightarrow> I t'" for t t'
      using Cons(1) up by blast
    show "I s'"
    proof (cases "excluded n")
      case True
      then show ?thesis using I run rest by (simp add: scan_items_Cons)
    next
      case False
      note ne = this
      show ?thesis
      proof (cases "stat_raises sx c")
        case True
        then have "s' = s" using run ne by (simp add: scan_items_Cons)
        then show ?thesis using I by simp
      next
        case False
        note ok = this
        show ?thesis
        proof (cases "is_file c")
          case True
          then show ?thesis
            using run ne ok rest step_file[OF I ne p] by (simp add: scan_items_Cons)
        next
          case False
          note nf = this
          show ?thesis
          proof (cases "is_dir c")
            case True
            then obtain t where t: "scan_recursive c (child p n) (Suc d) m
                       (s\<lparr>self_directories := self_directories s @ [child p n]\<rparr>) = Inr t"
              and t': "scan_items sx rest p d m t = Inr s'"
              using run ne ok nf by (auto simp: scan_items_Cons split: sum.splits)
            have "I t" by (rule sub[OF step_dir[OF I ne p] t])
            then show ?thesis using rest t' by simp
          next
            case False
            then show ?thesis using I run rest ne ok nf by (simp add: scan_items_Cons)
          qed
        qed
      qed
    qed
  qed
qed (auto simp: scan_recursive_cases split: if_splits)

lemma visible_Cons:
  "visible d m (n # rel) = (\<not> excluded n \<and> visible (Suc d) m rel)"
  by (auto simp: visible_def)

lemma filter_visible_map_Cons:
  "filter (visible d m) (map ((#) n) xs) =
     (if excluded n then [] else map ((#) n) (filter (visible (Suc d) m) xs))"
  by (induction xs) (auto simp: visible_Cons)

lemma descend_child: "descend (child p n) rel = descend p (n # rel)"
  by (simp add: descend_def child_def)

lemma child_descend: "child p n = descend p [n]"
  by (simp add: descend_def child_def)

lemma visible_too_deep: "m < d \<Longrightarrow> rel \<noteq> [] \<Longrightarrow> \<not> visible d m rel"
  by (cases rel) (auto simp: visible_def)

lemma listed_files_under_nonempty:
  "[] \<notin> set (listed_files_under node)"
  "[] \<notin> set (listed_files_under_items items)"
  by (induction node and items rule: tree_induct) auto

lemma filter_too_deep:
  assumes "m < d"
  shows "filter (visible d m) (listed_files_under node) = []"
proof -
  have "\<not> visible d m x" if "x \<in> set (listed_files_under node)" for x
  proof -
    have "x \<noteq> []" using that listed_files_under_nonempty(1)[of node] by auto
    then show ?thesis by (rule visible_too_deep[OF assms])
  qed
  then show ?thesis by (simp add: filter_empty_conv)
qed

lemma not_dir_listed_nothing: "\<not> is_file c \<Longrightarrow> \<not> is_dir c \<Longrightarrow> listed_files_under c = []"
  by (cases c) auto

lemma scan_files:
  "stat_ok node \<longrightarrow> (\<forall>p d s s'. scan_recursive node p d m s = Inr s' \<longrightarrow>
     self_files s' =
       self_files s @ map (descend p) (filter (visible d m) (listed_files_under node)))"
  "stat_ok_items items \<longrightarrow> (\<forall>p d s s'. d \<le> m \<longrightarrow> scan_items True items p d m s = Inr s' \<longrightarrow>
     self_files s' =
       self_files s @ map (descend p) (filter (visible d m) (listed_files_under_items items)))"
proof (induction node and items rule: tree_induct)
  case Nil
  show ?case by simp
next
  case (Cons n c rest)
  show ?case
  proof (intro allI impI)
    fix p d s s'
    assume ok: "stat_ok_items ((n, c) # rest)" and d: "d \<le> m"
      and run: "scan_items True ((n, c) # rest) p d m s = Inr s'"
    let ?R = "map (descend p) (filter (visible d m) (listed_files_under_items rest))"
    have ok_rest: "stat_ok_items rest" using ok by simp
    have rest: "self_files s' = self_files t @ ?R" if "scan_items True rest p d m t = Inr s'" for t
      using Cons(2) ok_rest d that by blast
    show "self_files s' =
       self_files s
       @ map (descend p) (filter (visible d m) (listed_files_under_items ((n, c) # rest)))"
    proof (cases "excluded n")
      case True
      then have "scan_items True rest p d m s = Inr s'" using run by (simp add: scan_items_Cons)
      then have "self_files s' = self_files s @ ?R" by (rule rest)
      then show ?thesis
        using True by (simp add: filter_visible_map_Cons visible_Cons)
    next
      case False
      note ne = this
      have ok_c: "stat_ok c" using ok ne by simp
      then have "c \<noteq> Denied" by auto
      then have nr: "\<not> stat_raises True c" by (simp add: stat_raises_def)
      have sub: "self_files t' = self_files t
            @ map (descend p) (map ((#) n) (filter (visible (Suc d) m) (listed_files_under c)))"
        if "scan_recursive c (child p n) (Suc d) m t = Inr t'" for t t'
      proof -
        have "self_files t' = self_files t @
            map (descend (child p n)) (filter (visible (Suc d) m) (listed_files_under c))"
          using Cons(1) ok_c that by blast
        then show ?thesis by (simp add: descend_child comp_def)
      qed
      show ?thesis
      proof (cases "is_file c")
        case True
        define t where "t = s\<lparr>self_files := self_files s @ [child p n],
                  self_file_extensions :=
                    (if path_suffix (child p n) \<noteq> []
                     then insert (path_suffix (child p n)) (self_file_extensions s)
                     else self_file_extensions s)\<rparr>"
        have "scan_items True rest p d m t = Inr s'"
          using run ne nr True by (simp add: scan_items_Cons t_def)
        then have "self_files s' = self_files t @ ?R" by (rule rest)
        moreover have "visible d m [n]" using ne d by (simp add: visible_def)
        moreover have "self_files t = self_files s @ [descend p [n]]"
          by (simp add: t_def child_descend)
        ultimately show ?thesis
          using True by simp
      next
        case False
        note nf = this
        show ?thesis
        proof (cases "is_dir c")
          case True
          then obtain t where t: "scan_recursive c (child p n) (Suc d) m
                     (s\<lparr>self_directories := self_directories s @ [child p n]\<rparr>) = Inr t"
            and t': "scan_items True rest p d m t = Inr s'"
            using run ne nr nf by (auto simp: scan_items_Cons split: sum.splits)
          have "self_files t = self_files s @
              map (descend p) (map ((#) n) (filter (visible (Suc d) m) (listed_files_under c)))"
            using sub[OF t] by simp
          moreover have "self_files s' = self_files t @ ?R" using t' by (rule rest)
          ultimately show ?thesis
            using ne nf by (simp add: filter_visible_map_Cons)
        next
          case False
          then have fu: "listed_files_under c = []" using nf by (rule not_dir_listed_nothing[rotated])
          have "scan_items True rest p d m s = Inr s'"
            using run ne nr nf False by (simp add: scan_items_Cons)
          then have "self_files s' = self_files s @ ?R" by (rule rest)
          then show ?thesis
            using nf fu by simp
        qed
      qed
    qed
  qed
next
  case (Dir readable searchable items)
  show ?case
  proof (intro allI impI)
    fix p d s s'
    assume ok: "stat_ok (Dir readable searchable items)"
      and run: "scan_recursive (Dir readable searchable items) p d m s = Inr s'"
    show "self_files s' = self_files s
        @ map (descend p) (filter (visible d m) (listed_files_under (Dir readable searchable items)))"
    proof (cases "m < d")
      case True
      have "s' = s" using run True by (simp add: scan_recursive_cases)
      then show ?thesis
        using filter_too_deep[OF True, of "Dir readable searchable items"] by simp
    next
      case False
      note depth = this
      show ?thesis
      proof (cases readable)
        case True
        then have sx: "searchable" and oki: "stat_ok_items items" using ok by simp_all
        have "scan_items True items p d m s = Inr s'" "d \<le> m"
          using run depth True sx by (simp_all add: scan_recursive_cases)
        then have "self_files s' = self_files s
            @ map (descend p) (filter (visible d m) (listed_files_under_items items))"
          using Dir oki by blast
        then show ?thesis using True by simp
      next
        case False
        then have "s' = s" using run by (simp add: scan_recursive_cases)
        then show ?thesis using False by simp
      qed
    qed
  qed
next
  case File
  show ?case by (simp add: scan_recursive_cases)
next
  case Special
  show ?case by (simp add: scan_recursive_cases)
next
  case Dangling
  show ?case by (simp add: scan_recursive_cases)
next
  case Denied
  show ?case by simp
qed

lemma accessible_exists:
  "accessible node \<longrightarrow> (\<forall>rel. \<exists>b. path_exists node rel = Inr b)"
  "accessible_items items \<longrightarrow> (\<forall>c cs. \<exists>b. exists_in items c cs = Inr b)"
proof (induction node and items rule: tree_induct)
  case (Dir readable searchable items)
  show ?case
  proof (intro impI allI)
    fix rel assume "accessible (Dir readable searchable items)"
    then show "\<exists>b. path_exists (Dir readable searchable items) rel = Inr b"
      using Dir by (cases rel) auto
  qed
next
  case File
  show ?case
  proof (intro impI allI)
    fix rel show "\<exists>b. path_exists File rel = Inr b" by (cases rel) auto
  qed
next
  case Special
  show ?case
  proof (intro impI allI)
    fix rel show "\<exists>b. path_exists Special rel = Inr b" by (cases rel) auto
  qed
qed auto

lemma first_existing_accessible:
  assumes "accessible root"
  shows "\<exists>x. first_existing root filenames = Inr x"
proof (induction filenames)
  case Nil
  show ?case by simp
next
  case (Cons f fs)
  obtain b where "path_exists root (path_components f) = Inr b"
    using accessible_exists(1) assms by blast
  then show ?case using Cons by (cases b) auto
qed

lemma find_special_files_loop_accessible:
  assumes "accessible root"
  shows "\<exists>found'. find_special_files_loop root p table found = Inr found'"
proof (induction table arbitrary: found)
  case Nil
  show ?case by simp
next
  case (Cons a table)
  obtain category filenames where a: "a = (category, filenames)" by (cases a)
  obtain x where x: "first_existing root filenames = Inr x"
    using first_existing_accessible[OF assms] by blast
  show ?case
  proof (cases x)
    case None
    then have "find_special_files_loop root p (a # table) found =
        find_special_files_loop root p table found"
      using x a by simp
    then show ?thesis using Cons[of found] by simp
  next
    case (Some filename)
    then have "find_special_files_loop root p (a # table) found =
        find_special_files_loop root p table (found(category \<mapsto> truediv p filename))"
      using x a by simp
    then show ?thesis
      using Cons[of "found(category \<mapsto> truediv p filename)"] by (simp only:)
  qed
qed

lemma scan_Inr_iff:
  "scan root p = Inr r \<longleftrightarrow>
     (\<exists>s' found. scan_recursive root p 0 10 (ProjectScanner p) = Inr s'
        \<and> find_special_files root s' = Inr found
        \<and> r = \<lparr>project_path = self_project_path s',
               project_name = path_name (self_project_path s'),
               files = self_files s',
               directories = self_directories s',
               file_count = length (self_files s'),
               dir_count = length (self_directories s'),
               extensions = sorted_list_of_set (self_file_extensions s'),
               file_tree = generate_tree s' 50,
               special_files = found\<rparr>)"
  by (auto simp: scan_def scan_of_def ProjectScanner_def split: sum.splits)

lemma scan_succeeds:
  assumes "is_dir root" and "accessible root"
  shows "\<exists>r. scan root p = Inr r"
proof -
  obtain s' where s': "scan_recursive root p 0 10 (ProjectScanner p) = Inr s'"
    using scan_success(1)[of root 10] assms(1) by blast
  obtain found where "find_special_files root s' = Inr found"
    unfolding find_special_files_def
    using find_special_files_loop_accessible[OF assms(2)] by blast
  then show ?thesis using s' by (simp add: scan_Inr_iff)
qed


lemma under_refl: "under p p"
  by (simp add: under_def)

lemma scan_names_not_excluded:
  assumes "scan root p = Inr r" and "f \<in> set (files r) \<union> set (directories r)"
  shows "\<not> excluded (path_name f)"
proof -
  let ?I = "\<lambda>s. \<forall>q \<in> set (self_files s) \<union> set (self_directories s). \<not> excluded (path_name q)"
  obtain s' where run: "scan_recursive root p 0 10 (ProjectScanner p) = Inr s'"
    and r: "files r = self_files s'" "directories r = self_directories s'"
    using assms(1) by (auto simp: scan_Inr_iff)
  have "?I (ProjectScanner p)" by (simp add: ProjectScanner_def)
  moreover have "\<forall>q d s t. ?I s \<longrightarrow> under p q \<longrightarrow> scan_recursive root q d 10 s = Inr t \<longrightarrow> ?I t"
    by (rule scan_invariant(1)) auto
  ultimately have "?I s'" using run under_refl by blast
  then show ?thesis using assms(2) r by simp
qed

lemma scan_files_under_root:
  assumes "scan root p = Inr r" and "f \<in> set (files r)"
  shows "under p f \<and> names f \<noteq> names p"
proof -
  let ?I = "\<lambda>s. \<forall>q \<in> set (self_files s). under p q \<and> names q \<noteq> names p"
  obtain s' where run: "scan_recursive root p 0 10 (ProjectScanner p) = Inr s'"
    and r: "files r = self_files s'"
    using assms(1) by (auto simp: scan_Inr_iff)
  have "?I (ProjectScanner p)" by (simp add: ProjectScanner_def)
  moreover have "\<forall>q d s t. ?I s \<longrightarrow> under p q \<longrightarrow> scan_recursive root q d 10 s = Inr t \<longrightarrow> ?I t"
  proof (rule scan_invariant(1))
    fix s q n
    assume I: "?I s" and q: "under p q"
    have "under p (child q n)" using q by (simp add: under_def child_def)
    moreover have "names (child q n) \<noteq> names p"
      using q by (auto simp: under_def child_def prefix_def)
    ultimately show "?I (s\<lparr>self_files := self_files s @ [child q n],
           self_file_extensions :=
             (if path_suffix (child q n) \<noteq> []
              then insert (path_suffix (child q n)) (self_file_extensions s)
              else self_file_extensions s)\<rparr>)"
      using I by simp
  next
    fix s q n
    assume "?I s"
    then show "?I (s\<lparr>self_directories := self_directories s @ [child q n]\<rparr>)" by simp
  qed
  ultimately have "?I s'" using run under_refl by blast
  then show ?thesis using assms(2) r by simp
qed

text \<open>
  Claim C1. Whatever the directory tree, no path recorded in the files or directories lists
  of a scan result has a name in \<open>IGNORE_DIRS\<close> or \<open>IGNORE_FILES\<close>, and none has a name
  beginning with a dot other than \<open>.env.example\<close> and \<open>.editorconfig\<close>.
\<close>
theorem scan_excludes_ignored_and_hidden:
  assumes "scan root p = Inr r"
  shows "\<forall>f \<in> set (files r) \<union> set (directories r).
           path_name f \<notin> IGNORE_DIRS \<and> path_name f \<notin> IGNORE_FILES
           \<and> (startswith (path_name f) ''.''
                \<longrightarrow> path_name f \<in> {''.env.example'', ''.editorconfig''})"
proof
  fix f assume "f \<in> set (files r) \<union> set (directories r)"
  then have "\<not> excluded (path_name f)" by (rule scan_names_not_excluded[OF assms])
  then show "path_name f \<notin> IGNORE_DIRS \<and> path_name f \<notin> IGNORE_FILES
           \<and> (startswith (path_name f) ''.''
                \<longrightarrow> path_name f \<in> {''.env.example'', ''.editorconfig''})"
    unfolding excluded_def by blast
qed

lemma excluded_simps:
  "excluded ''.git''" "\<not> excluded ''.env.example''" "excluded ''.hidden''" "excluded ''yarn.lock''"
  "\<not> excluded ''app.py''" "excluded ''node_modules''" "\<not> excluded ''src''"
  "\<not> excluded ''main.py''" "excluded ''.cache''"
  by (simp_all add: excluded_def IGNORE_DIRS_def IGNORE_FILES_def startswith_def)

lemma demo_tree_accessible: "is_dir demo_tree" "accessible demo_tree" "stat_ok demo_tree"
  by (simp_all add: demo_tree_def)

lemma demo_scan_recursive:
  "\<exists>e. scan_recursive demo_tree demo_path 0 10 (ProjectScanner demo_path) =
     Inr \<lparr>self_project_path = demo_path,
          self_files = [descend demo_path [''.env.example''], descend demo_path [''app.py''],
                        descend demo_path [''src'', ''main.py'']],
          self_directories = [descend demo_path [''src'']],
          self_file_extensions = e\<rparr>"
  by (simp add: demo_tree_def scan_recursive_cases scan_items_Cons excluded_simps
      ProjectScanner_def child_descend descend_def stat_raises_def)

theorem scan_excludes_ignored_and_hidden_witness:
  "\<exists>r. scan demo_tree demo_path = Inr r
     \<and> files r = [descend demo_path [''.env.example''], descend demo_path [''app.py''],
                  descend demo_path [''src'', ''main.py'']]
     \<and> directories r = [descend demo_path [''src'']]
     \<and> (\<forall>f \<in> set (files r) \<union> set (directories r).
           path_name f \<notin> IGNORE_DIRS \<and> path_name f \<notin> IGNORE_FILES
           \<and> (startswith (path_name f) ''.''
                \<longrightarrow> path_name f \<in> {''.env.example'', ''.editorconfig''}))"
proof -
  obtain s' where run: "scan_recursive demo_tree demo_path 0 10 (ProjectScanner demo_path) = Inr s'"
    and f: "self_files s' = [descend demo_path [''.env.example''], descend demo_path [''app.py''],
                  descend demo_path [''src'', ''main.py'']]"
    and d: "self_directories s' = [descend demo_path [''src'']]"
    using demo_scan_recursive by auto
  obtain r where r: "scan demo_tree demo_path = Inr r"
    using scan_succeeds[OF demo_tree_accessible(1,2)] by blast
  then have "files r = self_files s'" "directories r = self_directories s'"
    using run by (auto simp: scan_Inr_iff)
  then show ?thesis
    using scan_excludes_ignored_and_hidden[OF r] r f d by auto
qed

section \<open>The file count\<close>

lemma counted_visible: "counted m = visible 0 m"
  by (simp add: counted_def visible_def fun_eq_iff)

lemma scan_files_of_root:
  assumes "stat_ok root" and "scan root p = Inr r"
  shows "files r = map (descend p) (filter (counted 10) (listed_files_under root))"
proof -
  obtain s' where run: "scan_recursive root p 0 10 (ProjectScanner p) = Inr s'"
    and r: "files r = self_files s'"
    using assms(2) by (auto simp: scan_Inr_iff)
  have "self_files s' = self_files (ProjectScanner p)
      @ map (descend p) (filter (visible 0 10) (listed_files_under root))"
    using scan_files(1) assms(1) run by blast
  then show ?thesis by (simp add: r ProjectScanner_def counted_visible)
qed

















lemma demo_listed_files_under:
  "listed_files_under demo_tree =
     [[''.git'', ''config''], [''.env.example''], [''.hidden''], [''yarn.lock''], [''app.py''],
      [''node_modules'', ''x.js''], [''src'', ''main.py'']]"
  by (simp add: demo_tree_def)

section \<open>Denied access\<close>

text \<open>
  What the scanner does outside the hypothesis of the amended claim C2. An entry whose
  \<open>is_file()\<close> raises \<open>PermissionError\<close> ends the loop of its directory, so the entries
  listed after it are not recorded; and when the root, or \<open>.github\<close> in it, cannot be
  searched, \<open>exists()\<close> raises in \<open>_find_special_files\<close> and the scan raises.
\<close>

lemma denied_entry_ends_the_loop:
  "\<exists>r. scan (Folder [(''a.py'', File), (''link'', Denied), (''b.py'', File)]) p = Inr r
       \<and> files r = [child p ''a.py'']"
proof -
  let ?root = "Folder [(''a.py'', File), (''link'', Denied), (''b.py'', File)]"
  have ne: "\<not> excluded ''a.py''" "\<not> excluded ''link''"
    by (simp_all add: excluded_def IGNORE_DIRS_def IGNORE_FILES_def startswith_def)
  obtain s' where s': "scan_recursive ?root p 0 10 (ProjectScanner p) = Inr s'"
    and f: "self_files s' = [child p ''a.py'']"
    by (simp add: scan_recursive_cases scan_items_Cons ne stat_raises_def ProjectScanner_def)
  have "\<exists>found. find_special_files ?root s' = Inr found"
    by (simp add: find_special_files_def important_def path_components_def)
  then show ?thesis using s' f by (auto simp: scan_Inr_iff)
qed

lemma unsearchable_root_raises:
  "scan (Dir readable False items) p = Inl PermissionError"
proof -
  obtain s' where "scan_recursive (Dir readable False items) p 0 10 (ProjectScanner p) = Inr s'"
    using scan_success(1)[of "Dir readable False items" 10] by fastforce
  moreover have "find_special_files (Dir readable False items) s' = Inl PermissionError"
    by (simp add: find_special_files_def important_def path_components_def)
  ultimately show ?thesis
    by (simp add: scan_def scan_of_def ProjectScanner_def)
qed

lemma unsearchable_github_raises:
  "scan (Folder [(''.github'', Dir False False []), (''a.py'', File)]) p = Inl PermissionError"
proof -
  let ?root = "Folder [(''.github'', Dir False False []), (''a.py'', File)]"
  obtain s' where "scan_recursive ?root p 0 10 (ProjectScanner p) = Inr s'"
    using scan_success(1)[of ?root 10] by fastforce
  moreover have "find_special_files ?root s' = Inl PermissionError"
    by (simp add: find_special_files_def important_def path_components_def)
  ultimately show ?thesis
    by (simp add: scan_def scan_of_def ProjectScanner_def)
qed

section \<open>The enhancer and the license section\<close>

text \<open>
  Claim C6. When the environment has no \<open>ANTHROPIC_API_KEY\<close>, constructing the enhancer
  yields \<open>ValueError\<close> and no enhancer, and the requests sent (and the lines printed) are
  what they were before: the failure is at construction and no remote call is made.
\<close>
theorem enhancer_without_credential_raises:
  assumes "environ ''ANTHROPIC_API_KEY'' = None"
  shows "AIEnhancer environ w = (Inl ValueError, w)"
  using assms by (simp add: AIEnhancer_def)

theorem enhancer_without_credential_raises_witness:
  "Map.empty ''ANTHROPIC_API_KEY'' = None
   \<and> AIEnhancer Map.empty no_effects = (Inl ValueError, no_effects)
   \<and> api_calls (snd (AIEnhancer Map.empty no_effects)) = []"
  using enhancer_without_credential_raises[of Map.empty no_effects]
  by (simp add: no_effects_def)

text \<open>
  Claim C7. When the package is importable and the remote call fails (it raises, or its
  response has no first block with text), \<open>enhance\<close> returns exactly the document it was
  given, and it has sent exactly one request: there is no retry.
\<close>
theorem enhance_failure_returns_original:
  assumes "anthropic_installed svc"
    and "remote_call_fails (messages_create svc (make_request readme_content r t))"
  shows "fst (enhance self svc readme_content r t w) = Inr readme_content
         \<and> api_calls (snd (enhance self svc readme_content r t w))
             = api_calls w @ [make_request readme_content r t]"
  using assms
  by (auto simp: enhance_def remote_call_fails_def Let_def
           split: api_outcome.splits list.splits content_block.splits)

theorem enhance_failure_returns_original_witness:
  "anthropic_installed failing_service
   \<and> remote_call_fails (messages_create failing_service (make_request ''# proj'' demo_result demo_info))
   \<and> fst (enhance \<lparr>api_key = ''k''\<rparr> failing_service ''# proj'' demo_result demo_info no_effects)
        = Inr ''# proj''
   \<and> length (api_calls (snd (enhance \<lparr>api_key = ''k''\<rparr> failing_service ''# proj'' demo_result
        demo_info no_effects))) = 1"
proof -
  have a: "anthropic_installed failing_service"
    by (simp add: failing_service_def)
  have b: "remote_call_fails
      (messages_create failing_service (make_request ''# proj'' demo_result demo_info))"
    by (simp add: failing_service_def remote_call_fails_def)
  show ?thesis
    using enhance_failure_returns_original[OF a b, of "\<lparr>api_key = ''k''\<rparr>" no_effects] a b
    by (simp add: no_effects_def)
qed

lemma license_texts_differ: "license_present_text \<noteq> license_absent_text"
  by (simp add: license_present_text_def license_absent_text_def lines_def nl_def)

text \<open>
  Claim C8. The license section is a function of one fact, whether \<open>special_files\<close> has the
  key \<open>license\<close>: two scan results that agree on it get the same section, and the section
  for a result that has the key differs from the section for one that has not.
\<close>
theorem license_section_depends_on_presence_only:
  "((''license'' \<in> dom (special_files r1)) = (''license'' \<in> dom (special_files r2))
      \<longrightarrow> generate_license r1 = generate_license r2)
   \<and> (''license'' \<in> dom (special_files r1) \<and> ''license'' \<notin> dom (special_files r2)
      \<longrightarrow> generate_license r1 \<noteq> generate_license r2)"
  using license_texts_differ by (auto simp: generate_license_def)

theorem license_section_depends_on_presence_only_witness:
  "''license'' \<in> dom (special_files demo_result)
   \<and> ''license'' \<notin> dom (special_files (demo_result\<lparr>special_files := Map.empty\<rparr>))
   \<and> ''license'' \<in> dom (special_files (demo_result\<lparr>project_name := ''other'', files := []\<rparr>))
   \<and> generate_license demo_result
        \<noteq> generate_license (demo_result\<lparr>special_files := Map.empty\<rparr>)
   \<and> generate_license demo_result
        = generate_license (demo_result\<lparr>project_name := ''other'', files := []\<rparr>)"
  using license_section_depends_on_presence_only
          [of demo_result "demo_result\<lparr>special_files := Map.empty\<rparr>"]
        license_section_depends_on_presence_only
          [of demo_result "demo_result\<lparr>project_name := ''other'', files := []\<rparr>"]
  by (simp add: demo_result_def)

section \<open>The detector\<close>

lemma package_manager_loop_mem:
  "m \<in> set (package_manager_loop inds file_names managers) \<longleftrightarrow>
     m \<in> set managers \<or> (\<exists>fs. (m, fs) \<in> set inds \<and> list_ex (\<lambda>f. f \<in> file_names) fs)"
proof (induction inds arbitrary: managers)
  case Nil
  show ?case by simp
next
  case (Cons a inds)
  obtain m' fs' where a: "a = (m', fs')" by (cases a)
  show ?case
    unfolding a package_manager_loop.simps Cons.IH by auto
qed

lemma yarn_needs_lockfile:
  assumes "''yarn'' \<in> set (detect_package_managers r)"
  shows "''yarn.lock'' \<in> path_name ` set (files r)"
proof -
  obtain fs where in_table: "(''yarn'', fs) \<in> set package_manager_indicators"
    and hit: "list_ex (\<lambda>f. f \<in> path_name ` set (files r)) fs"
    using assms unfolding detect_package_managers_def package_manager_loop_mem by auto
  have "fs = [''yarn.lock'']"
    using in_table by (simp add: package_manager_indicators_def)
  then show ?thesis using hit by simp
qed

text \<open>
  Claim C9. Whatever tree is scanned, the package managers detected from the scan result do
  not include \<open>yarn\<close>: its only marker, \<open>yarn.lock\<close>, is in \<open>IGNORE_FILES\<close>, so no recorded
  file has that name.
\<close>
theorem scanned_project_never_detects_yarn:
  assumes "scan root p = Inr r"
  shows "''yarn'' \<notin> set (detect_package_managers r)"
proof
  assume "''yarn'' \<in> set (detect_package_managers r)"
  then obtain f where f: "f \<in> set (files r)" and n: "path_name f = ''yarn.lock''"
    using yarn_needs_lockfile by force
  have "\<not> excluded (path_name f)"
    using scan_names_not_excluded[OF assms] f by simp
  then show False
    by (simp add: n excluded_def IGNORE_FILES_def)
qed

theorem scanned_project_never_detects_yarn_witness:
  "\<exists>r. scan demo_tree demo_path = Inr r
       \<and> path_exists demo_tree [''yarn.lock''] = Inr True
       \<and> ''yarn'' \<notin> set (detect_package_managers r)"
proof -
  obtain r where r: "scan demo_tree demo_path = Inr r"
    using scan_succeeds[OF demo_tree_accessible(1,2)] by blast
  have "path_exists demo_tree [''yarn.lock''] = Inr True"
    by (simp add: demo_tree_def)
  then show ?thesis
    using scanned_project_never_detects_yarn[OF r] r by blast
qed

lemma indicator_loop_mem:
  "fw \<in> indicator_loop inds fs acc \<longleftrightarrow>
     fw \<in> acc \<or> (\<exists>is. (fw, is) \<in> set inds
                  \<and> list_ex (\<lambda>i. list_ex (\<lambda>f. contains i (path_str f)) fs) is)"
proof (induction inds arbitrary: acc)
  case Nil
  show ?case by simp
next
  case (Cons a inds)
  obtain fw' is' where a: "a = (fw', is')" by (cases a)
  show ?case
    unfolding a indicator_loop.simps Cons.IH by auto
qed

lemma indicator_loop_finite:
  assumes "finite acc"
  shows "finite (indicator_loop inds fs acc)"
proof (rule finite_subset)
  show "indicator_loop inds fs acc \<subseteq> acc \<union> fst ` set inds"
  proof
    fix fw assume "fw \<in> indicator_loop inds fs acc"
    then have "fw \<in> acc \<or> (\<exists>is. (fw, is) \<in> set inds)"
      unfolding indicator_loop_mem by blast
    then show "fw \<in> acc \<union> fst ` set inds" by force
  qed
  show "finite (acc \<union> fst ` set inds)" using assms by simp
qed

lemma parse_package_json_finite: "finite (parse_package_json env r)"
  by (simp add: parse_package_json_def split: option.splits)

lemma parse_requirements_finite: "finite (parse_requirements env r)"
  by (simp add: parse_requirements_def Let_def split: option.splits)

lemma frameworks_set_finite: "finite (frameworks_set env r)"
  by (simp add: frameworks_set_def indicator_loop_finite parse_package_json_finite
      parse_requirements_finite)

lemma set_detect_frameworks: "set (detect_frameworks env r) = frameworks_set env r"
  by (simp add: detect_frameworks_def frameworks_set_finite)

text \<open>
  Claim C10. If the stringified path of some file of a scan result contains
  \<open>package.json\<close>, the detected frameworks include both \<open>React\<close> and \<open>Node.js\<close>, whatever
  the manifest and the requirements file contain (whatever \<open>env\<close> reads).
\<close>
theorem package_json_path_gives_react_and_node:
  assumes "\<exists>f \<in> set (files r). contains ''package.json'' (path_str f)"
  shows "''React'' \<in> set (detect_frameworks env r)
         \<and> ''Node.js'' \<in> set (detect_frameworks env r)"
proof -
  have hit: "list_ex (\<lambda>f. contains ''package.json'' (path_str f)) (files r)"
    using assms by (simp add: list_ex_iff)
  have "(''React'', [''package.json'', ''react'']) \<in> set FRAMEWORK_INDICATORS"
    by (simp add: FRAMEWORK_INDICATORS_def)
  then have "''React'' \<in> indicator_loop FRAMEWORK_INDICATORS (files r) {}"
    unfolding indicator_loop_mem using hit by (intro disjI2 exI[of _ "[''package.json'', ''react'']"]) simp
  moreover have "(''Node.js'', [''package.json'']) \<in> set FRAMEWORK_INDICATORS"
    by (simp add: FRAMEWORK_INDICATORS_def)
  then have "''Node.js'' \<in> indicator_loop FRAMEWORK_INDICATORS (files r) {}"
    unfolding indicator_loop_mem using hit by (intro disjI2 exI[of _ "[''package.json'']"]) simp
  ultimately show ?thesis
    by (simp add: set_detect_frameworks frameworks_set_def)
qed

lemmas contains_eval = contains_def sublist_code

theorem package_json_path_gives_react_and_node_witness:
  "(\<exists>f \<in> set (files npm_result). contains ''package.json'' (path_str f))
   \<and> parse_package_json empty_manifest_reader npm_result = {}
   \<and> ''React'' \<in> set (detect_frameworks empty_manifest_reader npm_result)
   \<and> ''Node.js'' \<in> set (detect_frameworks empty_manifest_reader npm_result)"
proof -
  have h: "\<exists>f \<in> set (files npm_result). contains ''package.json'' (path_str f)"
    by (simp add: npm_result_def descend_def demo_path_def path_str_def contains_eval)
  have "parse_package_json empty_manifest_reader npm_result = {}"
    by (simp add: parse_package_json_def npm_result_def empty_manifest_reader_def)
  then show ?thesis
    using package_json_path_gives_react_and_node[OF h, of empty_manifest_reader] h by simp
qed

section \<open>Kubernetes among the tools\<close>

lemma kubernetes_in_tools:
  "''Kubernetes'' \<in> set (detect_tools r) \<longleftrightarrow>
     list_ex (\<lambda>f. contains ''.yaml'' (path_str f) \<or> contains ''.yml'' (path_str f)) (files r)
     \<and> list_ex (\<lambda>f. contains ''k8s'' (path_str f) \<or> contains ''kubernetes'' (path_str f)) (files r)"
  by (simp add: detect_tools_def)

lemma k8s_tree_accessible: "is_dir k8s_tree" "accessible k8s_tree" "stat_ok k8s_tree"
  by (simp_all add: k8s_tree_def)

lemma k8s_listed: "listed_files_under k8s_tree = [[''notes.yaml''], [''k8s.txt'']]"
  by (simp add: k8s_tree_def)

lemma k8s_scan:
  "scan k8s_tree k8s_path = Inr r \<Longrightarrow>
     files r = [descend k8s_path [''notes.yaml''], descend k8s_path [''k8s.txt'']]"
  by (simp add: scan_files_of_root[OF k8s_tree_accessible(3)] k8s_listed counted_def
      excluded_def IGNORE_DIRS_def IGNORE_FILES_def startswith_def)

lemma k8s_scan_ok: "\<not> isl (scan k8s_tree k8s_path)"
  using scan_succeeds[OF k8s_tree_accessible(1,2), of k8s_path] by auto

lemma k8s_files:
  "files (projr (scan k8s_tree k8s_path)) =
     [descend k8s_path [''notes.yaml''], descend k8s_path [''k8s.txt'']]"
  using k8s_scan k8s_scan_ok by (cases "scan k8s_tree k8s_path") auto

lemma path_str_notes: "path_str (descend k8s_path [''notes.yaml'']) = ''proj/notes.yaml''"
  by (simp add: descend_def k8s_path_def path_str_def)

lemma path_str_k8s: "path_str (descend k8s_path [''k8s.txt'']) = ''proj/k8s.txt''"
  by (simp add: descend_def k8s_path_def path_str_def)

lemma path_suffix_k8s: "path_suffix (descend k8s_path [''k8s.txt'']) = ''.txt''"
  by (simp add: descend_def k8s_path_def path_suffix_def path_name_def suffix_of_name_def)

text \<open>
  Claim C4 as stated fails. Scanning a directory that holds \<open>notes.yaml\<close> and \<open>k8s.txt\<close>
  succeeds and the tool list contains \<open>Kubernetes\<close>, although no recorded path has both a
  YAML extension and a Kubernetes-related substring: the two tests of \<open>_detect_tools\<close> are
  each made over all the files.
\<close>
theorem kubernetes_without_a_yaml_k8s_path:
  "\<not> isl (scan k8s_tree k8s_path)
   \<and> ''Kubernetes'' \<in> set (detect_tools (projr (scan k8s_tree k8s_path)))
   \<and> \<not> list_ex yaml_and_k8s_path (files (projr (scan k8s_tree k8s_path)))"
proof -
  have "''Kubernetes'' \<in> set (detect_tools (projr (scan k8s_tree k8s_path)))"
    unfolding kubernetes_in_tools k8s_files
    by (simp add: path_str_notes path_str_k8s contains_eval)
  moreover have "\<not> yaml_and_k8s_path (descend k8s_path [''notes.yaml''])"
    by (simp add: yaml_and_k8s_path_def path_str_notes contains_eval)
  moreover have "\<not> yaml_and_k8s_path (descend k8s_path [''k8s.txt''])"
    by (simp add: yaml_and_k8s_path_def path_suffix_k8s)
  ultimately show ?thesis
    using k8s_scan_ok by (simp add: k8s_files)
qed

lemma suffix_of_name_is_suffix: "suffix (suffix_of_name n) n"
  by (simp add: suffix_of_name_def suffix_drop split: option.splits)

lemma join_ends_with_last: "ns \<noteq> [] \<Longrightarrow> suffix (last ns) (join sep ns)"
proof (induction sep ns rule: join.induct)
  case (3 sep x y ys)
  then have "suffix (last (y # ys)) (join sep (y # ys))" by simp
  then show ?case by (simp add: suffix_append)
qed simp_all

lemma path_str_ends_with_name:
  assumes "names p \<noteq> []"
  shows "suffix (path_name p) (path_str p)"
  using join_ends_with_last[OF assms, of "''/''"] assms
  by (auto simp: path_name_def path_str_def suffix_Cons)

lemma path_str_contains_suffix:
  assumes "path_suffix f \<noteq> []"
  shows "contains (path_suffix f) (path_str f)"
proof -
  have "names f \<noteq> []"
    using assms by (auto simp: path_suffix_def path_name_def suffix_of_name_def)
  then have "suffix (path_name f) (path_str f)" by (rule path_str_ends_with_name)
  moreover have "suffix (path_suffix f) (path_name f)"
    unfolding path_suffix_def by (rule suffix_of_name_is_suffix)
  ultimately have "suffix (path_suffix f) (path_str f)" by (rule suffix_order.trans[rotated])
  then show ?thesis by (simp add: contains_def)
qed

text \<open>
  Claim C4, amended. The tool list contains \<open>Kubernetes\<close> exactly when some file path
  contains \<open>.yaml\<close> or \<open>.yml\<close> and some file path, the same or another, contains \<open>k8s\<close>
  or \<open>kubernetes\<close>. One path with a YAML extension and such a substring is therefore
  enough, but it is not needed.
\<close>
theorem kubernetes_iff_yaml_path_and_k8s_path:
  "(''Kubernetes'' \<in> set (detect_tools r) \<longleftrightarrow>
      (\<exists>f \<in> set (files r). contains ''.yaml'' (path_str f) \<or> contains ''.yml'' (path_str f))
      \<and> (\<exists>g \<in> set (files r). contains ''k8s'' (path_str g) \<or> contains ''kubernetes'' (path_str g)))
   \<and> ((\<exists>f \<in> set (files r). yaml_and_k8s_path f) \<longrightarrow> ''Kubernetes'' \<in> set (detect_tools r))"
proof -
  have iff: "''Kubernetes'' \<in> set (detect_tools r) \<longleftrightarrow>
      (\<exists>f \<in> set (files r). contains ''.yaml'' (path_str f) \<or> contains ''.yml'' (path_str f))
      \<and> (\<exists>g \<in> set (files r). contains ''k8s'' (path_str g) \<or> contains ''kubernetes'' (path_str g))"
    by (simp add: kubernetes_in_tools list_ex_iff)
  have "''Kubernetes'' \<in> set (detect_tools r)" if "f \<in> set (files r)" "yaml_and_k8s_path f" for f
  proof -
    have ext: "path_suffix f = ''.yaml'' \<or> path_suffix f = ''.yml''"
      and k: "contains ''k8s'' (path_str f) \<or> contains ''kubernetes'' (path_str f)"
      using that(2) by (auto simp: yaml_and_k8s_path_def)
    have "contains (path_suffix f) (path_str f)"
      using ext by (intro path_str_contains_suffix) auto
    then have "contains ''.yaml'' (path_str f) \<or> contains ''.yml'' (path_str f)"
      using ext by auto
    then show ?thesis using k that(1) unfolding iff by blast
  qed
  then show ?thesis using iff by blast
qed

theorem kubernetes_iff_yaml_path_and_k8s_path_witness:
  "(\<exists>f \<in> set (files (projr (scan k8s_tree k8s_path))).
       contains ''.yaml'' (path_str f) \<or> contains ''.yml'' (path_str f))
   \<and> (\<exists>g \<in> set (files (projr (scan k8s_tree k8s_path))).
       contains ''k8s'' (path_str g) \<or> contains ''kubernetes'' (path_str g))
   \<and> ''Kubernetes'' \<in> set (detect_tools (projr (scan k8s_tree k8s_path)))"
proof -
  have a: "\<exists>f \<in> set (files (projr (scan k8s_tree k8s_path))).
       contains ''.yaml'' (path_str f) \<or> contains ''.yml'' (path_str f)"
    by (simp add: k8s_files path_str_notes contains_eval)
  have b: "\<exists>g \<in> set (files (projr (scan k8s_tree k8s_path))).
       contains ''k8s'' (path_str g) \<or> contains ''kubernetes'' (path_str g)"
    by (simp add: k8s_files path_str_k8s contains_eval)
  show ?thesis
    using kubernetes_iff_yaml_path_and_k8s_path[of "projr (scan k8s_tree k8s_path)"] a b
    by blast
qed

section \<open>The primary language\<close>

lemma count_lang_keys: "fst ` set (count_lang cs lang) = insert lang (fst ` set cs)"
  by (force simp: count_lang_def split: if_splits)

lemma count_languages_keys:
  "fst ` set (count_languages fs cs) =
     fst ` set cs \<union> {lang. \<exists>f \<in> set fs. LANGUAGE_MAP (path_suffix f) = Some lang}"
proof (induction fs arbitrary: cs)
  case Nil
  show ?case by simp
next
  case (Cons f fs)
  show ?case
  proof (cases "LANGUAGE_MAP (path_suffix f)")
    case None
    then show ?thesis by (auto simp: Cons.IH)
  next
    case (Some lang)
    then show ?thesis by (auto simp: Cons.IH count_lang_keys)
  qed
qed

lemma max_by_count_mem: "max_by_count best xs \<in> set (best # xs)"
  by (induction xs arbitrary: best) (auto split: if_splits)

lemma primary_language_cases:
  "(count_languages (files r) [] = [] \<and> get_primary_language r = ''Unknown'')
   \<or> (count_languages (files r) [] \<noteq> []
       \<and> get_primary_language r \<in> fst ` set (count_languages (files r) []))"
proof (cases "count_languages (files r) []")
  case Nil
  then show ?thesis by (simp add: get_primary_language_def)
next
  case (Cons x xs)
  have "max_by_count x xs \<in> set (x # xs)" by (rule max_by_count_mem)
  then have "fst (max_by_count x xs) \<in> fst ` set (x # xs)" by (rule imageI)
  then show ?thesis
    unfolding get_primary_language_def Cons by simp
qed

lemma set_map_filter_Some:
  "set (List.map_filter f xs) = {y. \<exists>x \<in> set xs. f x = Some y}"
  by (induction xs) (auto split: option.splits)

lemma set_detect_languages:
  "set (detect_languages r) =
     {lang. \<exists>ext \<in> set (extensions r). LANGUAGE_MAP ext = Some lang}"
proof -
  have "set (detect_languages r) = set (List.map_filter LANGUAGE_MAP (extensions r))"
    unfolding detect_languages_def by (rule set_sorted_list_of_set) simp
  then show ?thesis by (simp add: set_map_filter_Some)
qed

lemma LANGUAGE_MAP_empty: "LANGUAGE_MAP [] = None"
  by (simp add: LANGUAGE_MAP_def)

text \<open>
  Claim C3. For a scan result whose \<open>extensions\<close> are the extensions observed on its
  files (as the data model says, and as every result of \<open>scan\<close> has them): when some file
  has an extension in \<open>LANGUAGE_MAP\<close> the primary language is one of the detected
  languages, and when none has, it is \<open>Unknown\<close>.
\<close>
theorem primary_language_detected_or_unknown:
  assumes "extensions_observed r"
  shows "if \<exists>f \<in> set (files r). LANGUAGE_MAP (path_suffix f) \<noteq> None
         then get_primary_language r \<in> set (detect_languages r)
         else get_primary_language r = ''Unknown''"
proof -
  let ?keys = "fst ` set (count_languages (files r) [])"
  have keys: "?keys = {lang. \<exists>f \<in> set (files r). LANGUAGE_MAP (path_suffix f) = Some lang}"
    by (simp add: count_languages_keys)
  have sub: "?keys \<subseteq> set (detect_languages r)"
  proof
    fix lang assume "lang \<in> ?keys"
    then obtain f where f: "f \<in> set (files r)" and l: "LANGUAGE_MAP (path_suffix f) = Some lang"
      unfolding keys by blast
    have "path_suffix f \<noteq> []" using l LANGUAGE_MAP_empty by auto
    then have "path_suffix f \<in> set (extensions r)"
      using assms f unfolding extensions_observed_def by blast
    then show "lang \<in> set (detect_languages r)"
      unfolding set_detect_languages using l by blast
  qed
  show ?thesis
  proof (cases "\<exists>f \<in> set (files r). LANGUAGE_MAP (path_suffix f) \<noteq> None")
    case True
    then have "?keys \<noteq> {}" unfolding keys by auto
    then have "count_languages (files r) [] \<noteq> []" by auto
    then have "get_primary_language r \<in> ?keys"
      using primary_language_cases[of r] by blast
    then show ?thesis using True sub by auto
  next
    case False
    then have "?keys = {}" unfolding keys by auto
    then have "count_languages (files r) [] = []" by simp
    then have "get_primary_language r = ''Unknown''"
      using primary_language_cases[of r] by blast
    then show ?thesis using False by simp
  qed
qed

lemma scan_extensions_invariant:
  assumes "scan_recursive root p 0 10 (ProjectScanner p) = Inr s'"
  shows "self_file_extensions s' = {e. e \<noteq> [] \<and> e \<in> path_suffix ` set (self_files s')}"
proof -
  let ?I = "\<lambda>s. self_file_extensions s = {e. e \<noteq> [] \<and> e \<in> path_suffix ` set (self_files s)}"
  have "?I (ProjectScanner p)" by (simp add: ProjectScanner_def)
  moreover have "\<forall>q d s t. ?I s \<longrightarrow> under p q \<longrightarrow> scan_recursive root q d 10 s = Inr t \<longrightarrow> ?I t"
    by (rule scan_invariant(1)) auto
  ultimately show ?thesis using assms under_refl by blast
qed

lemma scan_extensions_observed:
  assumes "scan root p = Inr r"
  shows "extensions_observed r"
proof -
  obtain s' where run: "scan_recursive root p 0 10 (ProjectScanner p) = Inr s'"
    and r: "files r = self_files s'"
           "extensions r = sorted_list_of_set (self_file_extensions s')"
    using assms by (auto simp: scan_Inr_iff)
  have eq: "self_file_extensions s' = {e. e \<noteq> [] \<and> e \<in> path_suffix ` set (self_files s')}"
    using run by (rule scan_extensions_invariant)
  have "finite (self_file_extensions s')"
    unfolding eq by simp
  then show ?thesis
    unfolding extensions_observed_def r using eq by simp
qed

lemma demo_files:
  "scan demo_tree demo_path = Inr r \<Longrightarrow>
     files r = [descend demo_path [''.env.example''], descend demo_path [''app.py''],
                descend demo_path [''src'', ''main.py'']]"
  by (simp add: scan_files_of_root[OF demo_tree_accessible(3)] demo_listed_files_under
      counted_def excluded_simps)

lemma demo_suffixes:
  "path_suffix (descend demo_path [''.env.example'']) = ''.example''"
  "path_suffix (descend demo_path [''app.py'']) = ''.py''"
  "path_suffix (descend demo_path [''src'', ''main.py'']) = ''.py''"
  by (simp_all add: descend_def path_suffix_def path_name_def suffix_of_name_def)

theorem primary_language_detected_or_unknown_witness:
  "\<exists>r. scan demo_tree demo_path = Inr r \<and> extensions_observed r
       \<and> get_primary_language r = ''Python'' \<and> ''Python'' \<in> set (detect_languages r)"
proof -
  obtain r where r: "scan demo_tree demo_path = Inr r"
    using scan_succeeds[OF demo_tree_accessible(1,2)] by blast
  have obs: "extensions_observed r" using r by (rule scan_extensions_observed)
  have prim: "get_primary_language r = ''Python''"
    by (simp add: get_primary_language_def demo_files[OF r] demo_suffixes LANGUAGE_MAP_def
        count_lang_def)
  have "\<exists>f \<in> set (files r). LANGUAGE_MAP (path_suffix f) \<noteq> None"
    by (simp add: demo_files[OF r] demo_suffixes LANGUAGE_MAP_def)
  then have "get_primary_language r \<in> set (detect_languages r)"
    using primary_language_detected_or_unknown[OF obs] by simp
  then show ?thesis using r obs prim by auto
qed

section \<open>An empty directory\<close>

lemma path_exists_empty_dir: "rel \<noteq> [] \<Longrightarrow> path_exists (Folder []) rel = Inr False"
  by (cases rel) simp_all

lemma find_special_files_empty_dir: "find_special_files (Folder []) s = Inr Map.empty"
  by (simp add: find_special_files_def important_def path_exists_empty_dir path_components_def)

lemma generate_tree_no_files:
  "self_files s = [] \<Longrightarrow> generate_tree s 50 = path_name (self_project_path s) @ ''/''"
  by (simp add: generate_tree_def)

lemma scan_empty_dir: "scan (Folder []) p = Inr (empty_result p)"
  by (simp add: scan_def scan_of_def scan_recursive_cases ProjectScanner_def empty_result_def
      find_special_files_empty_dir generate_tree_no_files)

lemma indicator_loop_no_files: "indicator_loop inds [] acc = acc"
  by (induction inds arbitrary: acc) (auto simp: list_ex_iff)

lemma package_manager_loop_no_files: "package_manager_loop inds {} acc = acc"
  by (induction inds arbitrary: acc) (auto simp: list_ex_iff)

lemma detect_empty_result: "detect env (empty_result p) = unknown_info"
  by (simp add: detect_def empty_result_def unknown_info_def detect_languages_def
      detect_frameworks_def frameworks_set_def indicator_loop_no_files
      detect_package_managers_def package_manager_loop_no_files detect_tools_def
      get_primary_language_def has_tests_def has_docs_def has_ci_def)

lemma contains_trans: "contains a b \<Longrightarrow> contains b c \<Longrightarrow> contains a c"
  unfolding contains_def sublist_def by (metis append.assoc)

lemma contains_in_append: "contains x ys \<Longrightarrow> contains x (pre @ ys)"
  unfolding contains_def sublist_def by (metis append.assoc)

lemma join_contains: "x \<in> set xs \<Longrightarrow> contains x (join sep xs)"
proof (induction sep xs rule: join.induct)
  case (3 sep a b ys)
  show ?case
  proof (cases "x = a")
    case True
    then show ?thesis by (simp add: contains_def)
  next
    case False
    then have "contains x (join sep (b # ys))"
      using 3 by simp
    then have "contains x ((a @ sep) @ join sep (b # ys))"
      by (rule contains_in_append)
    then show ?thesis by simp
  qed
qed (simp_all add: contains_def)

lemma lines_nonempty: "l \<noteq> [] \<Longrightarrow> lines (l # ls) \<noteq> []"
  by (cases ls) (simp_all add: lines_def)

lemma join_nonempty: "l \<noteq> [] \<Longrightarrow> join sep (l # ls) \<noteq> []"
  by (cases ls) simp_all

lemma sections_nonempty:
  "generate_header pname \<noteq> []"
  "generate_badges pname r t \<noteq> []"
  "generate_description t \<noteq> []"
  "generate_demo_section \<noteq> []"
  "generate_features t \<noteq> []"
  "generate_quick_start pname t \<noteq> []"
  "generate_installation pname t \<noteq> []"
  "generate_usage t \<noteq> []"
  "generate_project_structure r \<noteq> []"
  "generate_roadmap \<noteq> []"
  "generate_contributing \<noteq> []"
  "generate_license r \<noteq> []"
  "generate_acknowledgments \<noteq> []"
  "generate_footer \<noteq> []"
  by (simp_all add: generate_header_def generate_badges_def generate_description_def
      generate_demo_section_def generate_features_def generate_quick_start_def
      generate_installation_def generate_usage_def generate_project_structure_def
      generate_roadmap_def generate_contributing_def generate_license_def
      license_present_text_def license_absent_text_def
      generate_acknowledgments_def generate_footer_def lines_nonempty join_nonempty Let_def)

lemma tech_stack_nothing_detected:
  "languages t = [] \<Longrightarrow> frameworks t = [] \<Longrightarrow> tools t = [] \<Longrightarrow> generate_tech_stack t = []"
  by (simp add: generate_tech_stack_def tech_stack_lines_def)

lemma kept_sections_without_tech_stack:
  assumes "generate_tech_stack t = []"
  shows "filter (\<lambda>s. s \<noteq> []) (sections pname r t) =
     [generate_header pname,
      generate_badges pname r t,
      generate_description t,
      generate_demo_section,
      generate_features t,
      generate_quick_start pname t,
      generate_installation pname t,
      generate_usage t,
      generate_project_structure r,
      generate_roadmap,
      generate_contributing,
      generate_license r,
      generate_acknowledgments,
      generate_footer]"
  unfolding sections_def using assms by (simp add: sections_nonempty)

lemma badges_list_unknown_info:
  "badges_list pname (empty_result p) unknown_info =
     [language_badge ''Unknown'',
      ''![GitHub stars](https://img.shields.io/github/stars/yourusername/''
        @ project_slug pname @ ''?style=for-the-badge)'',
      ''![GitHub forks](https://img.shields.io/github/forks/yourusername/''
        @ project_slug pname @ ''?style=for-the-badge)'',
      ''![GitHub issues](https://img.shields.io/github/issues/yourusername/''
        @ project_slug pname @ ''?style=for-the-badge)'']"
  by (simp add: badges_list_def empty_result_def unknown_info_def)

lemma badges_section_contains_first_badge:
  assumes "badges_list pname r t = b # bs"
  shows "contains b (generate_badges pname r t)"
proof -
  have "b \<in> set (take 4 (badges_list pname r t))" using assms by simp
  then have "contains b (join '' '' (take 4 (badges_list pname r t)))" by (rule join_contains)
  moreover have "contains (join '' '' (take 4 (badges_list pname r t))) (generate_badges pname r t)"
    unfolding generate_badges_def Let_def lines_def by (rule join_contains) simp
  ultimately show ?thesis by (rule contains_trans)
qed

lemma scan_empty_dir_projr: "projr (scan (Folder []) p) = empty_result p"
  by (simp add: scan_empty_dir)

text \<open>
  Claim C5 as stated fails in its last part. For the empty directory at \<open>/home/proj\<close> the
  file count is 0 and the primary language is \<open>Unknown\<close>, and the badges section contains
  the language badge made from that name: \<open>Unknown\<close> is a non-empty string, so the test
  \<open>if self.tech_info['primary_language']\<close> succeeds.
\<close>
theorem empty_directory_has_language_badge:
  "file_count (projr (scan (Folder []) demo_path)) = 0
   \<and> primary_language (detect empty_manifest_reader (projr (scan (Folder []) demo_path))) = ''Unknown''
   \<and> language_badge ''Unknown''
        \<in> set (badges_list ''proj'' (projr (scan (Folder []) demo_path))
                 (detect empty_manifest_reader (projr (scan (Folder []) demo_path))))
   \<and> contains (language_badge ''Unknown'')
        (generate_badges ''proj'' (projr (scan (Folder []) demo_path))
           (detect empty_manifest_reader (projr (scan (Folder []) demo_path))))"
proof -
  have "contains (language_badge ''Unknown'')
      (generate_badges ''proj'' (empty_result demo_path) unknown_info)"
    using badges_list_unknown_info by (rule badges_section_contains_first_badge)
  then show ?thesis
    unfolding scan_empty_dir_projr detect_empty_result
    by (simp add: badges_list_unknown_info) (simp add: empty_result_def unknown_info_def)
qed

text \<open>
  Claim C5, amended. Scanning an empty directory succeeds with \<open>file_count = 0\<close>; the
  primary language is \<open>Unknown\<close>; the generated document contains the header, footer,
  roadmap, contributing and license sections; the tech-stack section is empty and is left
  out, the document being the fourteen other sections joined by blank lines; and the badges
  section does contain a language badge, the one for the name \<open>Unknown\<close>. This holds for
  every path, project name and reader.
\<close>
theorem empty_directory_document:
  "\<exists>r. scan (Folder []) p = Inr r
     \<and> file_count r = 0
     \<and> primary_language (detect env r) = ''Unknown''
     \<and> contains (generate_header pname) (generate pname r (detect env r))
     \<and> contains generate_footer (generate pname r (detect env r))
     \<and> contains generate_roadmap (generate pname r (detect env r))
     \<and> contains generate_contributing (generate pname r (detect env r))
     \<and> contains (generate_license r) (generate pname r (detect env r))
     \<and> generate_tech_stack (detect env r) = []
     \<and> generate pname r (detect env r) =
         join (nl @ nl)
           [generate_header pname,
            generate_badges pname r (detect env r),
            generate_description (detect env r),
            generate_demo_section,
            generate_features (detect env r),
            generate_quick_start pname (detect env r),
            generate_installation pname (detect env r),
            generate_usage (detect env r),
            generate_project_structure r,
            generate_roadmap,
            generate_contributing,
            generate_license r,
            generate_acknowledgments,
            generate_footer]
     \<and> contains (language_badge ''Unknown'') (generate_badges pname r (detect env r))"
proof -
  let ?r = "empty_result p"
  let ?t = "unknown_info"
  let ?kept = "[generate_header pname,
            generate_badges pname ?r ?t,
            generate_description ?t,
            generate_demo_section,
            generate_features ?t,
            generate_quick_start pname ?t,
            generate_installation pname ?t,
            generate_usage ?t,
            generate_project_structure ?r,
            generate_roadmap,
            generate_contributing,
            generate_license ?r,
            generate_acknowledgments,
            generate_footer]"
  have ts: "generate_tech_stack ?t = []"
    by (rule tech_stack_nothing_detected) (simp_all add: unknown_info_def)
  have doc: "generate pname ?r ?t = join (nl @ nl) ?kept"
    unfolding generate_def kept_sections_without_tech_stack[OF ts] by (rule refl)
  have in_doc: "contains x (generate pname ?r ?t)" if "x \<in> set ?kept" for x
    unfolding doc using that by (rule join_contains)
  have badge: "contains (language_badge ''Unknown'') (generate_badges pname ?r ?t)"
    using badges_list_unknown_info by (rule badges_section_contains_first_badge)
  have "file_count ?r = 0" "primary_language ?t = ''Unknown''"
    by (simp_all add: empty_result_def unknown_info_def)
  moreover have "contains (generate_header pname) (generate pname ?r ?t)"
    by (rule in_doc) simp
  moreover have "contains generate_footer (generate pname ?r ?t)"
    by (rule in_doc) simp
  moreover have "contains generate_roadmap (generate pname ?r ?t)"
    by (rule in_doc) simp
  moreover have "contains generate_contributing (generate pname ?r ?t)"
    by (rule in_doc) simp
  moreover have "contains (generate_license ?r) (generate pname ?r ?t)"
    by (rule in_doc) simp
  ultimately show ?thesis
    using scan_empty_dir[of p] ts doc badge
    by (intro exI[of _ ?r]) (simp only: detect_empty_result simp_thms)
qed

end
